theory Spec2Isabelle
  imports Main
begin

section \<open>Python values, documents and exceptions\<close>

text \<open>
  The module \<^verbatim>\<open>langchain_index_utils.py\<close> defines one class, \<^verbatim>\<open>PrepareVectorDB\<close>.
  Its constructor argument \<^verbatim>\<open>data_directory\<close> is tested with \<^verbatim>\<open>isinstance(.., list)\<close>,
  so it is modelled as a dynamically typed Python value.
\<close>

datatype py_value = PyNone | PyInt int | PyStr string | PyList "py_value list"

text \<open>\<^verbatim>\<open>isinstance(v, list)\<close>, giving the elements the \<^verbatim>\<open>for\<close> loop iterates.\<close>

fun as_list :: "py_value \<Rightarrow> py_value list option" where
  "as_list (PyList vs) = Some vs"
| "as_list PyNone = None"
| "as_list (PyInt i) = None"
| "as_list (PyStr s) = None"

text \<open>A langchain \<^verbatim>\<open>Document\<close>: the text and its metadata dictionary.\<close>

record document =
  page_content :: string
  metadata :: "(string \<times> py_value) list"

text \<open>A Python exception: the name of its class and its message.\<close>

datatype exn = Exception string string

text \<open>What reading an attribute that \<^verbatim>\<open>__init__\<close> never assigned raises.\<close>

definition AttributeError :: "string \<Rightarrow> exn" where
  "AttributeError attr = Exception ''AttributeError'' attr"

section \<open>The collaborators\<close>

text \<open>
  Every library the class calls is a parameter of the model: the directory listing and
  path join of \<^verbatim>\<open>os\<close>, \<^verbatim>\<open>PyPDFLoader(path).load()\<close>, the constructors of the two text
  splitters, the subdivision of one document by a splitter, the constructor of
  \<^verbatim>\<open>OpenAIEmbeddings\<close>, the embedding of one text, and the storage backend's failure for
  a persistence directory (\<open>None\<close>: the write succeeds). Each returns the exception it
  raises as \<open>Inl\<close>.
\<close>

record ('sp, 'emb, 'vec) libs =
  os_listdir :: "py_value \<Rightarrow> exn + string list"
  os_path_join :: "py_value \<Rightarrow> string \<Rightarrow> exn + py_value"
  PyPDFLoader_load :: "py_value \<Rightarrow> exn + document list"
  RecursiveCharacterTextSplitter :: "int \<Rightarrow> int \<Rightarrow> string list \<Rightarrow> exn + 'sp"
  TokenTextSplitter :: "int \<Rightarrow> int \<Rightarrow> exn + 'sp"
  split_document :: "'sp \<Rightarrow> document \<Rightarrow> exn + document list"
  OpenAIEmbeddings :: "string \<Rightarrow> exn + 'emb"
  embed :: "'emb \<Rightarrow> string \<Rightarrow> exn + 'vec"
  storage_fault :: "string \<Rightarrow> exn option"

section \<open>The world: what a run prints, calls and persists\<close>

datatype print_arg = S string | N nat

datatype event =
    Print "print_arg list"
  | Listdir py_value
  | Load py_value
  | Split
  | Store string

type_synonym 'vec index_entry = "'vec \<times> string \<times> (string \<times> py_value) list"

record 'vec world =
  trace :: "event list"
  vector_store :: "string \<Rightarrow> 'vec index_entry list"

definition emit :: "event \<Rightarrow> 'vec world \<Rightarrow> 'vec world" where
  "emit ev w = w\<lparr>trace := trace w @ [ev]\<rparr>"

section \<open>The class PrepareVectorDB\<close>

text \<open>
  The attributes of an instance. \<^verbatim>\<open>text_splitter\<close> and \<^verbatim>\<open>persist_directory\<close> are assigned
  only inside the two branches of \<^verbatim>\<open>__init__\<close>; \<open>None\<close> is the attribute that was never
  assigned.
\<close>

record ('sp, 'emb) PrepareVectorDB =
  embedding_model_engine :: string
  splitter_type :: string
  text_splitter :: "'sp option"
  persist_directory :: "string option"
  data_directory :: py_value
  embedding :: 'emb

text \<open>
  \<^verbatim>\<open>__init__\<close> (lines 36 to 80). The \<^verbatim>\<open>if\<close>/\<^verbatim>\<open>elif\<close> on \<^verbatim>\<open>splitter_type\<close> has no
  \<^verbatim>\<open>else\<close>: any other string assigns neither attribute.
\<close>

definition init ::
  "('sp, 'emb, 'vec) libs \<Rightarrow> py_value \<Rightarrow> string \<Rightarrow> string \<Rightarrow> string \<Rightarrow>
   int \<Rightarrow> int \<Rightarrow> int \<Rightarrow> int \<Rightarrow> string \<Rightarrow> 'vec world \<Rightarrow>
   (exn + ('sp, 'emb) PrepareVectorDB) \<times> 'vec world" where
  "init L data_directory' token_vector_db_save_dir recursive_vector_db_save_dir
        embedding_model_engine' chunk_size chunk_overlap token_chunk_size
        token_chunk_overlap splitter_type' w =
    (let w1 = emit (Print [S (''Splitter type: '' @ splitter_type')]) w in
     case (if splitter_type' = ''recursive'' then
             (case RecursiveCharacterTextSplitter L chunk_size chunk_overlap
                     [[CHR 0x0A, CHR 0x0A], [CHR 0x0A], '' '', ''''] of
                Inl e \<Rightarrow> Inl e
              | Inr sp \<Rightarrow> Inr (Some sp, Some recursive_vector_db_save_dir))
           else if splitter_type' = ''token'' then
             (case TokenTextSplitter L token_chunk_size token_chunk_overlap of
                Inl e \<Rightarrow> Inl e
              | Inr sp \<Rightarrow> Inr (Some sp, Some token_vector_db_save_dir))
           else Inr (None, None)) of
       Inl e \<Rightarrow> (Inl e, w1)
     | Inr (sp, pd) \<Rightarrow>
         (case OpenAIEmbeddings L embedding_model_engine' of
            Inl e \<Rightarrow> (Inl e, w1)
          | Inr emb \<Rightarrow>
              (Inr \<lparr>embedding_model_engine = embedding_model_engine',
                    splitter_type = splitter_type',
                    text_splitter = sp,
                    persist_directory = pd,
                    data_directory = data_directory',
                    embedding = emb\<rparr>, w1)))"

text \<open>
  The two loops of \<^verbatim>\<open>__load_all_documents\<close> (lines 93 to 95 and 102 to 105) differ only
  in the path they hand to \<^verbatim>\<open>PyPDFLoader\<close>: the list element itself, or
  \<^verbatim>\<open>os.path.join(self.data_directory, doc_name)\<close>. \<open>path_of\<close> is that expression.
  An exception leaves the loop at once, with what was loaded so far dropped.
\<close>

fun load_loop ::
  "('sp, 'emb, 'vec) libs \<Rightarrow> ('x \<Rightarrow> exn + py_value) \<Rightarrow> 'x list \<Rightarrow> document list \<Rightarrow> nat \<Rightarrow>
   'vec world \<Rightarrow> (exn + document list \<times> nat) \<times> 'vec world" where
  "load_loop L path_of [] docs doc_counter w = (Inr (docs, doc_counter), w)"
| "load_loop L path_of (x # xs) docs doc_counter w =
    (case path_of x of
       Inl e \<Rightarrow> (Inl e, w)
     | Inr p \<Rightarrow>
         (let w1 = emit (Load p) w in
          case PyPDFLoader_load L p of
            Inl e \<Rightarrow> (Inl e, w1)
          | Inr pages \<Rightarrow> load_loop L path_of xs (docs @ pages) (doc_counter + 1) w1))"

text \<open>The two prints that end either branch of \<^verbatim>\<open>__load_all_documents\<close>.\<close>

definition report_loaded :: "nat \<Rightarrow> document list \<Rightarrow> 'vec world \<Rightarrow> 'vec world" where
  "report_loaded doc_counter docs w =
     emit (Print [S ''Number of pages:'', N (length docs), S [CHR 0x0A, CHR 0x0A]])
       (emit (Print [S ''Number of loaded documents:'', N doc_counter]) w)"

text \<open>
  The methods take the instance and the world and give both back: a Python method may
  assign to \<^verbatim>\<open>self\<close>.
\<close>

type_synonym ('sp, 'emb, 'vec) state = "('sp, 'emb) PrepareVectorDB \<times> 'vec world"

definition load_all_documents ::
  "('sp, 'emb, 'vec) libs \<Rightarrow> ('sp, 'emb, 'vec) state \<Rightarrow>
   (exn + document list) \<times> ('sp, 'emb, 'vec) state" where
  "load_all_documents L st =
    (case st of (self, w) \<Rightarrow>
      (case as_list (data_directory self) of
         Some paths \<Rightarrow>
           (let w1 = emit (Print [S ''Loading the uploaded documents...'']) w in
            case load_loop L Inr paths [] 0 w1 of
              (Inl e, w2) \<Rightarrow> (Inl e, (self, w2))
            | (Inr (docs, doc_counter), w2) \<Rightarrow>
                (Inr docs, (self, report_loaded doc_counter docs w2)))
       | None \<Rightarrow>
           (let w1 = emit (Print [S ''Loading documents manually...'']) w;
                w2 = emit (Listdir (data_directory self)) w1 in
            case os_listdir L (data_directory self) of
              Inl e \<Rightarrow> (Inl e, (self, w2))
            | Inr document_list \<Rightarrow>
                (case load_loop L (os_path_join L (data_directory self)) document_list [] 0 w2 of
                   (Inl e, w3) \<Rightarrow> (Inl e, (self, w3))
                 | (Inr (docs, doc_counter), w3) \<Rightarrow>
                     (Inr docs, (self, report_loaded doc_counter docs w3))))))"

text \<open>
  Modelled from the spec: \<^verbatim>\<open>split_documents\<close> is a method of the library's text splitters,
  whose code is not in the repository. Sections 3 and 6 of the specification give its
  contract: a chunk is one source document subdivided under the splitter's size and
  overlap policy, and the call is a pure function of the splitter and the documents. So
  the documents are subdivided one by one, in order, and their chunks concatenated; how
  one document is subdivided is the library's own. An exception ends the call.
\<close>

fun split_documents ::
  "('sp, 'emb, 'vec) libs \<Rightarrow> 'sp \<Rightarrow> document list \<Rightarrow> exn + document list" where
  "split_documents L sp [] = Inr []"
| "split_documents L sp (d # ds) =
    (case split_document L sp d of
       Inl e \<Rightarrow> Inl e
     | Inr chunks \<Rightarrow>
         (case split_documents L sp ds of
            Inl e \<Rightarrow> Inl e
          | Inr rest \<Rightarrow> Inr (chunks @ rest)))"

definition chunk_documents ::
  "('sp, 'emb, 'vec) libs \<Rightarrow> document list \<Rightarrow> ('sp, 'emb, 'vec) state \<Rightarrow>
   (exn + document list) \<times> ('sp, 'emb, 'vec) state" where
  "chunk_documents L docs st =
    (case st of (self, w) \<Rightarrow>
      (let w1 = emit (Print [S ''Chunking documents...'']) w in
       case text_splitter self of
         None \<Rightarrow> (Inl (AttributeError ''text_splitter''), (self, w1))
       | Some sp \<Rightarrow>
           (let w2 = emit Split w1 in
            case split_documents L sp docs of
              Inl e \<Rightarrow> (Inl e, (self, w2))
            | Inr chunked_documents \<Rightarrow>
                (Inr chunked_documents,
                 (self, emit (Print [S ''Number of chunks:'', N (length chunked_documents),
                                     S [CHR 0x0A, CHR 0x0A]]) w2)))))"

section \<open>The vector index\<close>

text \<open>The handle \<^verbatim>\<open>Chroma.from_documents\<close> returns: the collection rooted at a directory.\<close>

record chroma =
  collection_dir :: string

definition count :: "'vec world \<Rightarrow> chroma \<Rightarrow> nat" where
  "count w vectordb = length (vector_store w (collection_dir vectordb))"

fun embed_all :: "(string \<Rightarrow> exn + 'vec) \<Rightarrow> string list \<Rightarrow> exn + 'vec list" where
  "embed_all f [] = Inr []"
| "embed_all f (t # ts) =
    (case f t of
       Inl e \<Rightarrow> Inl e
     | Inr v \<Rightarrow> (case embed_all f ts of Inl e \<Rightarrow> Inl e | Inr vs \<Rightarrow> Inr (v # vs)))"

text \<open>
  Modelled from the spec: \<^verbatim>\<open>Chroma.from_documents\<close> is a library call whose code is not in
  the repository. Sections 4.1 and 6 of the specification give its contract: it computes
  an embedding for each chunk (which may fail with the embedder's error), inserts one
  (vector, text, metadata) triple per chunk into the index rooted at the given
  persistence directory and persists it (which may fail with the storage backend's
  error); entries already stored there are never removed, and \<^verbatim>\<open>count()\<close> reports the
  total stored.
\<close>

definition Chroma_from_documents ::
  "('sp, 'emb, 'vec) libs \<Rightarrow> document list \<Rightarrow> 'emb \<Rightarrow> string \<Rightarrow> 'vec world \<Rightarrow>
   (exn + chroma) \<times> 'vec world" where
  "Chroma_from_documents L documents emb dir w =
    (let w1 = emit (Store dir) w in
     case embed_all (embed L emb) (map page_content documents) of
       Inl e \<Rightarrow> (Inl e, w1)
     | Inr vectors \<Rightarrow>
         (case storage_fault L dir of
            Some e \<Rightarrow> (Inl e, w1)
          | None \<Rightarrow>
              (Inr \<lparr>collection_dir = dir\<rparr>,
               w1\<lparr>vector_store := (vector_store w1)
                     (dir := vector_store w1 dir @
                        zip vectors (zip (map page_content documents)
                                         (map metadata documents)))\<rparr>)))"

definition prepare_and_save_vectordb ::
  "('sp, 'emb, 'vec) libs \<Rightarrow> ('sp, 'emb, 'vec) state \<Rightarrow>
   (exn + chroma) \<times> ('sp, 'emb, 'vec) state" where
  "prepare_and_save_vectordb L st =
    (case load_all_documents L st of
       (Inl e, st1) \<Rightarrow> (Inl e, st1)
     | (Inr docs, st1) \<Rightarrow>
         (case chunk_documents L docs st1 of
            (Inl e, st2) \<Rightarrow> (Inl e, st2)
          | (Inr chunked_documents, (self, w2)) \<Rightarrow>
              (let w3 = emit (Print [S ''Preparing vectordb...'']) w2 in
               case persist_directory self of
                 None \<Rightarrow> (Inl (AttributeError ''persist_directory''), (self, w3))
               | Some dir \<Rightarrow>
                   (case Chroma_from_documents L chunked_documents (embedding self) dir w3 of
                      (Inl e, w4) \<Rightarrow> (Inl e, (self, w4))
                    | (Inr vectordb, w4) \<Rightarrow>
                        (Inr vectordb,
                         (self,
                          emit (Print [S ''Number of vectors in vectordb:'',
                                       N (count w4 vectordb), S [CHR 0x0A, CHR 0x0A]])
                            (emit (Print [S ''VectorDB is created and saved.'']) w4)))))))"

section \<open>Observing a trace\<close>

text \<open>
  The library calls of a trace, by kind: the paths handed to the loader, the directories
  listed, the directories handed to the vector index and the number of
  \<^verbatim>\<open>split_documents\<close> calls; and the events a run appended to the world it started from.
\<close>

definition loaded_paths :: "event list \<Rightarrow> py_value list" where
  "loaded_paths t = concat (map (\<lambda>ev. case ev of Load p \<Rightarrow> [p] | _ \<Rightarrow> []) t)"

definition listed_dirs :: "event list \<Rightarrow> py_value list" where
  "listed_dirs t = concat (map (\<lambda>ev. case ev of Listdir d \<Rightarrow> [d] | _ \<Rightarrow> []) t)"

definition stored_dirs :: "event list \<Rightarrow> string list" where
  "stored_dirs t = concat (map (\<lambda>ev. case ev of Store d \<Rightarrow> [d] | _ \<Rightarrow> []) t)"

definition split_calls :: "event list \<Rightarrow> nat" where
  "split_calls t = length (filter (\<lambda>ev. ev = Split) t)"

definition events_since :: "'vec world \<Rightarrow> 'vec world \<Rightarrow> event list" where
  "events_since w w' = drop (length (trace w)) (trace w')"

section \<open>Test doubles\<close>

text \<open>
  Concrete collaborators on which the theorems are evaluated. The directory \<^verbatim>\<open>data\<close>
  holds \<^verbatim>\<open>a.pdf\<close> (2 pages) and \<^verbatim>\<open>b.pdf\<close> (3 pages), the scenario of the
  specification's section 8; \<^verbatim>\<open>inbox\<close> holds a corrupt file between them, whose error
  names its path; \<^verbatim>\<open>scans\<close> holds two unreadable files, the first of which fails with a
  parser message that names no file; \<^verbatim>\<open>empty\<close> is an empty directory; listing \<^verbatim>\<open>None\<close>
  lists the working directory, and joining a name to it is a \<^verbatim>\<open>TypeError\<close>. The splitter
  constructors reject an overlap larger than the chunk size and nothing else; splitting
  gives one chunk per page, and fails for a token splitter whose chunk size is not
  positive; the embedding model \<^verbatim>\<open>unauthorized\<close> fails on every text; writing under
  \<^verbatim>\<open>readonly_db\<close> fails.
\<close>

datatype stub_splitter = Recursive int int "string list" | Token int int

definition pdf_page :: "string \<Rightarrow> int \<Rightarrow> document" where
  "pdf_page path i =
     \<lparr>page_content = ''text of a page'',
      metadata = [(''source'', PyStr path), (''page'', PyInt i)]\<rparr>"

definition stub_libs :: "(stub_splitter, string, nat) libs" where
  "stub_libs =
    \<lparr>os_listdir = (\<lambda>d.
       if d = PyStr ''data'' then Inr [''a.pdf'', ''b.pdf'']
       else if d = PyStr ''inbox'' then Inr [''a.pdf'', ''corrupt.pdf'', ''b.pdf'']
       else if d = PyStr ''empty'' then Inr []
       else if d = PyStr ''scans'' then Inr [''scan.pdf'', ''corrupt.pdf'']
       else if d = PyNone then Inr [''a.pdf'']
       else Inl (Exception ''NotADirectoryError'' '''')),
     os_path_join = (\<lambda>d n. case d of
         PyStr s \<Rightarrow> Inr (PyStr (s @ ''/'' @ n))
       | _ \<Rightarrow> Inl (Exception ''TypeError'' n)),
     PyPDFLoader_load = (\<lambda>p.
       if p = PyStr ''data/a.pdf'' then Inr [pdf_page ''data/a.pdf'' 0, pdf_page ''data/a.pdf'' 1]
       else if p = PyStr ''data/b.pdf'' then Inr [pdf_page ''data/b.pdf'' 0, pdf_page ''data/b.pdf'' 1, pdf_page ''data/b.pdf'' 2]
       else if p = PyStr ''inbox/a.pdf'' then Inr [pdf_page ''inbox/a.pdf'' 0, pdf_page ''inbox/a.pdf'' 1]
       else if p = PyStr ''inbox/b.pdf'' then Inr [pdf_page ''inbox/b.pdf'' 0, pdf_page ''inbox/b.pdf'' 1, pdf_page ''inbox/b.pdf'' 2]
       else if p = PyStr ''scans/scan.pdf''
         then Inl (Exception ''PdfReadError'' ''EOF marker not found'')
       else (case p of PyStr s \<Rightarrow> Inl (Exception ''PdfReadError'' s)
                     | _ \<Rightarrow> Inl (Exception ''TypeError'' ''''))),
     RecursiveCharacterTextSplitter = (\<lambda>chunk_size chunk_overlap separators.
       if chunk_overlap > chunk_size then Inl (Exception ''ValueError'' ''larger chunk overlap'')
       else Inr (Recursive chunk_size chunk_overlap separators)),
     TokenTextSplitter = (\<lambda>chunk_size chunk_overlap.
       if chunk_overlap > chunk_size then Inl (Exception ''ValueError'' ''larger chunk overlap'')
       else Inr (Token chunk_size chunk_overlap)),
     split_document = (\<lambda>sp doc. case sp of
         Recursive chunk_size chunk_overlap separators \<Rightarrow> Inr [doc]
       | Token chunk_size chunk_overlap \<Rightarrow>
           if chunk_size \<le> 0 then Inl (Exception ''ValueError'' ''chunk size'')
           else Inr [doc]),
     OpenAIEmbeddings = (\<lambda>model. Inr model),
     embed = (\<lambda>model text.
       if model = ''unauthorized'' then Inl (Exception ''AuthenticationError'' model)
       else Inr (length text)),
     storage_fault = (\<lambda>dir.
       if dir = ''readonly_db'' then Some (Exception ''PermissionError'' dir) else None)\<rparr>"

text \<open>A world with nothing persisted, and one where every directory holds an entry.\<close>

definition empty_world :: "nat world" where
  "empty_world = \<lparr>trace = [], vector_store = (\<lambda>dir. [])\<rparr>"

definition used_world :: "nat world" where
  "used_world = \<lparr>trace = [], vector_store = (\<lambda>dir. [(5, ''older'', [])])\<rparr>"

text \<open>
  The instance \<^verbatim>\<open>__init__\<close> builds from the usual recursive configuration
  (\<^verbatim>\<open>chunk_size = 500\<close>, \<^verbatim>\<open>chunk_overlap = 50\<close>) over a given data location.
\<close>

definition stub_pipeline :: "py_value \<Rightarrow> (stub_splitter, string) PrepareVectorDB" where
  "stub_pipeline data_directory' =
    \<lparr>embedding_model_engine = ''ada'',
     splitter_type = ''recursive'',
     text_splitter = Some (Recursive 500 50 [[CHR 0x0A, CHR 0x0A], [CHR 0x0A], '' '', '''']),
     persist_directory = Some ''recursive_db'',
     data_directory = data_directory',
     embedding = ''ada''\<rparr>"

section \<open>Facts about traces\<close>

lemma loaded_paths_simps [simp]:
  "loaded_paths [] = []"
  "loaded_paths (Load p # t) = p # loaded_paths t"
  "loaded_paths (Print a # t) = loaded_paths t"
  "loaded_paths (Listdir d # t) = loaded_paths t"
  "loaded_paths (Split # t) = loaded_paths t"
  "loaded_paths (Store s # t) = loaded_paths t"
  "loaded_paths (t @ u) = loaded_paths t @ loaded_paths u"
  by (simp_all add: loaded_paths_def)

lemma listed_dirs_simps [simp]:
  "listed_dirs [] = []"
  "listed_dirs (Load p # t) = listed_dirs t"
  "listed_dirs (Print a # t) = listed_dirs t"
  "listed_dirs (Listdir d # t) = d # listed_dirs t"
  "listed_dirs (Split # t) = listed_dirs t"
  "listed_dirs (Store s # t) = listed_dirs t"
  "listed_dirs (t @ u) = listed_dirs t @ listed_dirs u"
  by (simp_all add: listed_dirs_def)

lemma stored_dirs_simps [simp]:
  "stored_dirs [] = []"
  "stored_dirs (Load p # t) = stored_dirs t"
  "stored_dirs (Print a # t) = stored_dirs t"
  "stored_dirs (Listdir d # t) = stored_dirs t"
  "stored_dirs (Split # t) = stored_dirs t"
  "stored_dirs (Store s # t) = s # stored_dirs t"
  "stored_dirs (t @ u) = stored_dirs t @ stored_dirs u"
  by (simp_all add: stored_dirs_def)

lemma split_calls_simps [simp]:
  "split_calls [] = 0"
  "split_calls (Load p # t) = split_calls t"
  "split_calls (Print a # t) = split_calls t"
  "split_calls (Listdir d # t) = split_calls t"
  "split_calls (Split # t) = Suc (split_calls t)"
  "split_calls (Store s # t) = split_calls t"
  "split_calls (t @ u) = split_calls t + split_calls u"
  by (simp_all add: split_calls_def)

lemma map_Load_observed [simp]:
  "loaded_paths (map Load ps) = ps"
  "listed_dirs (map Load ps) = []"
  "stored_dirs (map Load ps) = []"
  "split_calls (map Load ps) = 0"
  by (induction ps) simp_all

lemma map_Load_comp_observed [simp]:
  "loaded_paths (map (Load \<circ> f) xs) = map f xs"
  "listed_dirs (map (Load \<circ> f) xs) = []"
  "stored_dirs (map (Load \<circ> f) xs) = []"
  "split_calls (map (Load \<circ> f) xs) = 0"
  by (induction xs) simp_all

lemma events_since_append [simp]: "events_since w (w\<lparr>trace := trace w @ t\<rparr>) = t"
  by (simp add: events_since_def)

lemma events_since_trace: "trace w' = trace w @ t \<Longrightarrow> events_since w w' = t"
  by (simp add: events_since_def)

section \<open>The loading loop\<close>

lemma load_loop_all_ok:
  assumes "\<forall>x\<in>set xs. path_of x = Inr (pth x) \<and> PyPDFLoader_load L (pth x) = Inr (pages x)"
  shows "load_loop L path_of xs docs c w =
           (Inr (docs @ concat (map pages xs), c + length xs),
            w\<lparr>trace := trace w @ map Load (map pth xs)\<rparr>)"
  using assms
  by (induction xs arbitrary: docs c w) (auto simp: emit_def Let_def)

lemma load_loop_first_failure:
  assumes "\<forall>y\<in>set pre. path_of y = Inr (pth y) \<and> PyPDFLoader_load L (pth y) = Inr (pages y)"
    and "path_of x = Inr p" and "PyPDFLoader_load L p = Inl e"
  shows "load_loop L path_of (pre @ x # post) docs c w =
           (Inl e, w\<lparr>trace := trace w @ map Load (map pth pre @ [p])\<rparr>)"
  using assms
  by (induction pre arbitrary: docs c w) (auto simp: emit_def Let_def)


text \<open>
  Whatever happens, the loop only appends loader calls: one for each element of a prefix
  of the list, in order, with the path computed for that element.
\<close>

lemma load_loop_frame:
  "\<exists>ps. snd (load_loop L f xs docs c w) = w\<lparr>trace := trace w @ map Load ps\<rparr> \<and>
        length ps \<le> length xs \<and> map f (take (length ps) xs) = map Inr ps"
proof (induction xs arbitrary: docs c w)
  case Nil
  show ?case by (intro exI[of _ "[]"]) simp
next
  case (Cons x xs)
  show ?case
  proof (cases "f x")
    case (Inl e)
    then show ?thesis by (intro exI[of _ "[]"]) simp
  next
    case (Inr p)
    note p = this
    show ?thesis
    proof (cases "PyPDFLoader_load L p")
      case (Inl e)
      with p show ?thesis by (intro exI[of _ "[p]"]) (simp add: emit_def)
    next
      case (Inr pages)
      from Cons.IH[of "docs @ pages" "c + 1" "emit (Load p) w"]
      obtain ps where ps:
        "snd (load_loop L f xs (docs @ pages) (c + 1) (emit (Load p) w)) =
           (emit (Load p) w)\<lparr>trace := trace (emit (Load p) w) @ map Load ps\<rparr>"
        "length ps \<le> length xs" "map f (take (length ps) xs) = map Inr ps"
        by blast
      with p Inr show ?thesis
        by (intro exI[of _ "p # ps"]) (simp add: emit_def)
    qed
  qed
qed

lemma load_loop_some_failure:
  assumes "x \<in> set xs" and "path_of x = Inr p" and "PyPDFLoader_load L p = Inl e"
  shows "\<exists>e'. fst (load_loop L path_of xs docs c w) = Inl e'"
  using assms
  by (induction xs arbitrary: docs c w) (auto simp: Let_def split: sum.splits)

lemma load_loop_empty: "load_loop L f [] [] 0 w = (Inr ([], 0), w)"
  by simp

section \<open>The loading stage\<close>

lemma load_all_documents_list_ok:
  assumes "data_directory self = PyList paths"
    and "\<forall>p\<in>set paths. PyPDFLoader_load L p = Inr (pages p)"
  shows "load_all_documents L (self, w) =
    (Inr (concat (map pages paths)),
     (self, w\<lparr>trace := trace w @
        Print [S ''Loading the uploaded documents...''] # map Load paths @
        [Print [S ''Number of loaded documents:'', N (length paths)],
         Print [S ''Number of pages:'', N (length (concat (map pages paths))),
                S [CHR 0x0A, CHR 0x0A]]]\<rparr>))"
proof -
  have "\<forall>p\<in>set paths. Inr p = (Inr (id p) :: exn + py_value) \<and>
          PyPDFLoader_load L (id p) = Inr (pages p)"
    using assms(2) by simp
  from load_loop_all_ok[OF this]
  show ?thesis using assms(1)
    by (simp add: load_all_documents_def report_loaded_def emit_def)
qed

lemma load_all_documents_dir_ok:
  assumes "as_list (data_directory self) = None"
    and "os_listdir L (data_directory self) = Inr names"
    and "\<forall>n\<in>set names. os_path_join L (data_directory self) n = Inr (pth n) \<and>
                        PyPDFLoader_load L (pth n) = Inr (pages n)"
  shows "load_all_documents L (self, w) =
    (Inr (concat (map pages names)),
     (self, w\<lparr>trace := trace w @
        Print [S ''Loading documents manually...''] # Listdir (data_directory self) #
        map Load (map pth names) @
        [Print [S ''Number of loaded documents:'', N (length names)],
         Print [S ''Number of pages:'', N (length (concat (map pages names))),
                S [CHR 0x0A, CHR 0x0A]]]\<rparr>))"
  using assms(1,2) load_loop_all_ok[OF assms(3)]
  by (simp add: load_all_documents_def report_loaded_def emit_def)

lemma load_all_documents_dir_first_failure:
  assumes "as_list (data_directory self) = None"
    and "os_listdir L (data_directory self) = Inr (pre @ n # post)"
    and "\<forall>m\<in>set pre. os_path_join L (data_directory self) m = Inr (pth m) \<and>
                        PyPDFLoader_load L (pth m) = Inr (pages m)"
    and "os_path_join L (data_directory self) n = Inr p"
    and "PyPDFLoader_load L p = Inl e"
  shows "load_all_documents L (self, w) =
    (Inl e,
     (self, w\<lparr>trace := trace w @
        Print [S ''Loading documents manually...''] # Listdir (data_directory self) #
        map Load (map pth pre @ [p])\<rparr>))"
  using assms(1,2) load_loop_first_failure[OF assms(3,4,5)]
  by (simp add: load_all_documents_def emit_def)



lemma load_all_documents_dir_some_failure:
  assumes "as_list (data_directory self) = None"
    and "os_listdir L (data_directory self) = Inr names"
    and "n \<in> set names"
    and "os_path_join L (data_directory self) n = Inr p"
    and "PyPDFLoader_load L p = Inl e"
  shows "\<exists>e'. fst (load_all_documents L (self, w)) = Inl e'"
proof -
  let ?w2 = "emit (Listdir (data_directory self))
               (emit (Print [S ''Loading documents manually...'']) w)"
  obtain e' where "fst (load_loop L (os_path_join L (data_directory self)) names [] 0 ?w2) = Inl e'"
    using load_loop_some_failure[of n names "os_path_join L (data_directory self)" p L e "[]" 0 ?w2]
      assms(3,4,5) by blast
  then show ?thesis using assms(1,2)
    by (cases "load_loop L (os_path_join L (data_directory self)) names [] 0 ?w2")
       (simp add: load_all_documents_def)
qed

lemma load_all_documents_listdir_failure:
  assumes "as_list (data_directory self) = None"
    and "os_listdir L (data_directory self) = Inl e"
  shows "load_all_documents L (self, w) =
    (Inl e, (self, w\<lparr>trace := trace w @
        [Print [S ''Loading documents manually...''], Listdir (data_directory self)]\<rparr>))"
  using assms by (simp add: load_all_documents_def emit_def)

text \<open>List mode, whatever the loader does: the loads are a prefix of the given list.\<close>

lemma load_all_documents_list_frame:
  assumes "data_directory self = PyList paths"
  shows "\<exists>k t. snd (load_all_documents L (self, w)) = (self, w\<lparr>trace := trace w @ t\<rparr>) \<and>
      k \<le> length paths \<and> loaded_paths t = take k paths \<and>
      listed_dirs t = [] \<and> stored_dirs t = [] \<and> split_calls t = 0"
proof -
  let ?p = "Print [S ''Loading the uploaded documents...'']"
  let ?w1 = "emit ?p w"
  let ?r = "load_loop L Inr paths [] 0 ?w1"
  obtain ps where ps: "snd ?r = ?w1\<lparr>trace := trace ?w1 @ map Load ps\<rparr>"
    "length ps \<le> length paths" "map Inr (take (length ps) paths) = (map Inr ps :: (exn + py_value) list)"
    using load_loop_frame[of L Inr paths "[]" 0 ?w1] by blast
  from ps(3) have tk: "take (length ps) paths = ps"
    by (simp add: inj_map_eq_map)
  obtain r w2 where r: "?r = (r, w2)" by (cases ?r)
  with ps(1) have w2: "w2 = w\<lparr>trace := trace w @ ?p # map Load ps\<rparr>"
    by (simp add: emit_def)
  show ?thesis
  proof (cases r)
    case (Inl e)
    with r w2 assms ps(2) tk show ?thesis
      by (intro exI[of _ "length ps"] exI[of _ "?p # map Load ps"])
         (simp add: load_all_documents_def)
  next
    case (Inr dc)
    obtain docs c where "dc = (docs, c)" by (cases dc)
    with Inr r w2 assms ps(2) tk show ?thesis
      by (intro exI[of _ "length ps"] exI[of _ "?p # map Load ps @
            [Print [S ''Number of loaded documents:'', N c],
             Print [S ''Number of pages:'', N (length docs), S [CHR 0x0A, CHR 0x0A]]]"])
         (simp add: load_all_documents_def report_loaded_def emit_def)
  qed
qed

text \<open>
  Directory mode, whatever the loader does: one listing of the directory, then loads of
  the joined paths of a prefix of the listing.
\<close>

lemma load_all_documents_dir_frame:
  assumes "as_list (data_directory self) = None"
  shows "\<exists>t. snd (load_all_documents L (self, w)) = (self, w\<lparr>trace := trace w @ t\<rparr>) \<and>
      listed_dirs t = [data_directory self] \<and> stored_dirs t = [] \<and> split_calls t = 0 \<and>
      (case os_listdir L (data_directory self) of
         Inl e \<Rightarrow> loaded_paths t = []
       | Inr names \<Rightarrow>
           length (loaded_paths t) \<le> length names \<and>
           map (os_path_join L (data_directory self)) (take (length (loaded_paths t)) names) =
             map Inr (loaded_paths t))"
proof (cases "os_listdir L (data_directory self)")
  case (Inl e)
  from load_all_documents_listdir_failure[OF assms Inl, of w] Inl show ?thesis
    by (intro exI[of _ "[Print [S ''Loading documents manually...''],
                         Listdir (data_directory self)]"]) simp
next
  case (Inr names)
  let ?d = "data_directory self"
  let ?p = "Print [S ''Loading documents manually...'']"
  let ?w2 = "emit (Listdir ?d) (emit ?p w)"
  let ?r = "load_loop L (os_path_join L ?d) names [] 0 ?w2"
  obtain ps where ps: "snd ?r = ?w2\<lparr>trace := trace ?w2 @ map Load ps\<rparr>"
    "length ps \<le> length names" "map (os_path_join L ?d) (take (length ps) names) = map Inr ps"
    using load_loop_frame[of L "os_path_join L ?d" names "[]" 0 ?w2] by blast
  obtain r w3 where r: "?r = (r, w3)" by (cases ?r)
  with ps(1) have w3: "w3 = w\<lparr>trace := trace w @ ?p # Listdir ?d # map Load ps\<rparr>"
    by (simp add: emit_def)
  show ?thesis
  proof (cases r)
    case (Inl e)
    with r w3 assms Inr ps(2,3) show ?thesis
      by (intro exI[of _ "?p # Listdir ?d # map Load ps"])
         (simp add: load_all_documents_def)
  next
    case r': (Inr dc)
    obtain docs c where "dc = (docs, c)" by (cases dc)
    with r' r w3 assms Inr ps(2,3) show ?thesis
      by (intro exI[of _ "?p # Listdir ?d # map Load ps @
            [Print [S ''Number of loaded documents:'', N c],
             Print [S ''Number of pages:'', N (length docs), S [CHR 0x0A, CHR 0x0A]]]"])
         (simp add: load_all_documents_def report_loaded_def emit_def)
  qed
qed

text \<open>Either mode: the instance is returned as it was, and nothing is split or stored.\<close>

lemma load_all_documents_frame:
  "\<exists>t. snd (load_all_documents L (self, w)) = (self, w\<lparr>trace := trace w @ t\<rparr>) \<and>
       stored_dirs t = [] \<and> split_calls t = 0 \<and> length (listed_dirs t) \<le> 1"
proof (cases "as_list (data_directory self)")
  case None
  from load_all_documents_dir_frame[OF None, of L w] show ?thesis by force
next
  case (Some paths)
  then have "data_directory self = PyList paths"
    by (cases "data_directory self") simp_all
  from load_all_documents_list_frame[OF this, of L w] show ?thesis by force
qed

section \<open>The chunking stage\<close>

lemma chunk_documents_cases:
  "chunk_documents L docs (self, w) =
    (case text_splitter self of
       None \<Rightarrow> (Inl (AttributeError ''text_splitter''),
                (self, w\<lparr>trace := trace w @ [Print [S ''Chunking documents...'']]\<rparr>))
     | Some sp \<Rightarrow>
         (case split_documents L sp docs of
            Inl e \<Rightarrow> (Inl e, (self, w\<lparr>trace := trace w @
                        [Print [S ''Chunking documents...''], Split]\<rparr>))
          | Inr chunks \<Rightarrow>
              (Inr chunks, (self, w\<lparr>trace := trace w @
                 [Print [S ''Chunking documents...''], Split,
                  Print [S ''Number of chunks:'', N (length chunks),
                         S [CHR 0x0A, CHR 0x0A]]]\<rparr>))))"
  by (simp add: chunk_documents_def emit_def split: option.splits sum.splits)

lemma chunk_documents_frame:
  "\<exists>t. snd (chunk_documents L docs (self, w)) = (self, w\<lparr>trace := trace w @ t\<rparr>) \<and>
       stored_dirs t = [] \<and> split_calls t \<le> 1 \<and> listed_dirs t = [] \<and> loaded_paths t = []"
proof (cases "text_splitter self")
  case None
  then show ?thesis
    by (intro exI[of _ "[Print [S ''Chunking documents...'']]"])
       (simp add: chunk_documents_cases)
next
  case (Some sp)
  show ?thesis
  proof (cases "split_documents L sp docs")
    case (Inl e)
    with Some show ?thesis
      by (intro exI[of _ "[Print [S ''Chunking documents...''], Split]"])
         (simp add: chunk_documents_cases)
  next
    case (Inr chunks)
    with Some show ?thesis
      by (intro exI[of _ "[Print [S ''Chunking documents...''], Split,
            Print [S ''Number of chunks:'', N (length chunks), S [CHR 0x0A, CHR 0x0A]]]"])
         (simp add: chunk_documents_cases)
  qed
qed

section \<open>The storing stage\<close>

lemma embed_all_length: "embed_all f ts = Inr vs \<Longrightarrow> length vs = length ts"
  by (induction ts arbitrary: vs) (auto split: sum.splits)

lemma embed_all_ok:
  "\<forall>t\<in>set ts. \<exists>v. f t = Inr v \<Longrightarrow> \<exists>vs. embed_all f ts = Inr vs"
  by (induction ts) auto

lemma Chroma_from_documents_cases:
  "Chroma_from_documents L documents emb dir w =
    (case embed_all (embed L emb) (map page_content documents) of
       Inl e \<Rightarrow> (Inl e, w\<lparr>trace := trace w @ [Store dir]\<rparr>)
     | Inr vectors \<Rightarrow>
         (case storage_fault L dir of
            Some e \<Rightarrow> (Inl e, w\<lparr>trace := trace w @ [Store dir]\<rparr>)
          | None \<Rightarrow>
              (Inr \<lparr>collection_dir = dir\<rparr>,
               w\<lparr>trace := trace w @ [Store dir],
                 vector_store := (vector_store w)
                     (dir := vector_store w dir @
                        zip vectors (zip (map page_content documents)
                                         (map metadata documents)))\<rparr>)))"
  by (simp add: Chroma_from_documents_def emit_def split: sum.splits option.splits)

lemma Chroma_from_documents_frame:
  "trace (snd (Chroma_from_documents L documents emb dir w)) = trace w @ [Store dir] \<and>
   (\<forall>d. d \<noteq> dir \<longrightarrow>
      vector_store (snd (Chroma_from_documents L documents emb dir w)) d = vector_store w d)"
  by (auto simp: Chroma_from_documents_cases split: sum.splits option.splits)

section \<open>The whole run\<close>

lemma prepare_load_error:
  "fst (load_all_documents L st) = Inl e \<Longrightarrow>
     prepare_and_save_vectordb L st = (Inl e, snd (load_all_documents L st))"
  by (cases "load_all_documents L st") (simp add: prepare_and_save_vectordb_def)



text \<open>
  What any run does to the instance and the world: after the loading stage (whose
  events are \<open>t1\<close>) it lists and loads nothing more, splits at most once, and calls the
  vector index at most once, on the instance's persistence directory.
\<close>

lemma prepare_and_save_vectordb_frame:
  "\<exists>t1 t2 w'. snd (load_all_documents L (self, w)) = (self, w\<lparr>trace := trace w @ t1\<rparr>) \<and>
       snd (prepare_and_save_vectordb L (self, w)) = (self, w') \<and>
       trace w' = trace w @ t1 @ t2 \<and>
       loaded_paths t2 = [] \<and> listed_dirs t2 = [] \<and>
       stored_dirs t1 = [] \<and> split_calls t1 = 0 \<and>
       split_calls t2 \<le> 1 \<and> length (stored_dirs t2) \<le> 1 \<and>
       (\<forall>d\<in>set (stored_dirs t2). persist_directory self = Some d) \<and>
       (\<forall>h. fst (prepare_and_save_vectordb L (self, w)) = Inr h \<longrightarrow>
            stored_dirs t2 = [collection_dir h]) \<and>
       (\<forall>d. persist_directory self \<noteq> Some d \<longrightarrow> vector_store w' d = vector_store w d)"
proof -
  obtain t1 where l: "snd (load_all_documents L (self, w)) = (self, w\<lparr>trace := trace w @ t1\<rparr>)"
    "stored_dirs t1 = []" "split_calls t1 = 0"
    using load_all_documents_frame[of L self w] by blast
  let ?w1 = "w\<lparr>trace := trace w @ t1\<rparr>"
  obtain r1 where r1: "load_all_documents L (self, w) = (r1, (self, ?w1))"
    using l(1) by (cases "load_all_documents L (self, w)") simp
  show ?thesis
  proof (cases r1)
    case (Inl e)
    with r1 l show ?thesis
      by (intro exI[of _ t1] exI[of _ "[]"] exI[of _ ?w1])
         (simp add: prepare_and_save_vectordb_def)
  next
    case (Inr docs)
    note docs = this
    obtain t2 where c: "snd (chunk_documents L docs (self, ?w1)) =
        (self, ?w1\<lparr>trace := trace ?w1 @ t2\<rparr>)"
      "stored_dirs t2 = []" "split_calls t2 \<le> 1" "listed_dirs t2 = []" "loaded_paths t2 = []"
      using chunk_documents_frame[of L docs self ?w1] by blast
    let ?w2 = "w\<lparr>trace := trace w @ t1 @ t2\<rparr>"
    have w2: "?w1\<lparr>trace := trace ?w1 @ t2\<rparr> = ?w2" by simp
    obtain r2 where r2: "chunk_documents L docs (self, ?w1) = (r2, (self, ?w2))"
      using c(1) w2 by (cases "chunk_documents L docs (self, ?w1)") simp
    show ?thesis
    proof (cases r2)
      case (Inl e)
      with r1 docs r2 l c show ?thesis
        by (intro exI[of _ t1] exI[of _ t2] exI[of _ ?w2])
           (simp add: prepare_and_save_vectordb_def)
    next
      case (Inr chunks)
      note chunks = this
      let ?p = "Print [S ''Preparing vectordb...'']"
      let ?w3 = "w\<lparr>trace := trace w @ t1 @ t2 @ [?p]\<rparr>"
      have w3: "emit ?p ?w2 = ?w3" by (simp add: emit_def)
      show ?thesis
      proof (cases "persist_directory self")
        case None
        with r1 docs r2 chunks l c w3 show ?thesis
          by (intro exI[of _ t1] exI[of _ "t2 @ [?p]"] exI[of _ ?w3])
             (simp add: prepare_and_save_vectordb_def)
      next
        case (Some dir)
        let ?c = "Chroma_from_documents L chunks (embedding self) dir ?w3"
        obtain rc w4 where ch: "?c = (rc, w4)" by (cases ?c)
        from Chroma_from_documents_frame[of L chunks "embedding self" dir ?w3] ch
        have f: "trace w4 = trace w @ t1 @ t2 @ [?p, Store dir]"
          "\<forall>d. d \<noteq> dir \<longrightarrow> vector_store w4 d = vector_store w d"
          by simp_all
        show ?thesis
        proof (cases rc)
          case (Inl e)
          with r1 docs r2 chunks w3 Some ch
          have "prepare_and_save_vectordb L (self, w) = (Inl e, (self, w4))"
            by (simp add: prepare_and_save_vectordb_def)
          with f l c Some show ?thesis
            by (intro exI[of _ t1] exI[of _ "t2 @ [?p, Store dir]"] exI[of _ w4]) simp
        next
          case (Inr h)
          with ch have h: "h = \<lparr>collection_dir = dir\<rparr>"
            by (auto simp: Chroma_from_documents_cases split: sum.splits option.splits)
          let ?q = "[Print [S ''VectorDB is created and saved.''],
                     Print [S ''Number of vectors in vectordb:'', N (count w4 h),
                            S [CHR 0x0A, CHR 0x0A]]]"
          let ?w5 = "w4\<lparr>trace := trace w4 @ ?q\<rparr>"
          from r1 docs r2 chunks w3 Some ch Inr
          have "prepare_and_save_vectordb L (self, w) = (Inr h, (self, ?w5))"
            by (simp add: prepare_and_save_vectordb_def emit_def)
          with f l c Some h show ?thesis
            by (intro exI[of _ t1] exI[of _ "t2 @ [?p, Store dir] @ ?q"] exI[of _ ?w5]) simp
        qed
      qed
    qed
  qed
qed

text \<open>When every stage succeeds, the run returns the index and has added one entry per chunk.\<close>

lemma prepare_success:
  assumes ld: "fst (load_all_documents L (self, w)) = Inr docs"
    and sp: "text_splitter self = Some sp"
    and ch: "split_documents L sp docs = Inr chunks"
    and pd: "persist_directory self = Some dir"
    and em: "embed_all (embed L (embedding self)) (map page_content chunks) = Inr vectors"
    and sf: "storage_fault L dir = None"
  shows "\<exists>w'. prepare_and_save_vectordb L (self, w) = (Inr \<lparr>collection_dir = dir\<rparr>, (self, w')) \<and>
     vector_store w' = (vector_store w)
        (dir := vector_store w dir @
           zip vectors (zip (map page_content chunks) (map metadata chunks)))"
proof -
  obtain t1 where l: "snd (load_all_documents L (self, w)) = (self, w\<lparr>trace := trace w @ t1\<rparr>)"
    using load_all_documents_frame[of L self w] by blast
  let ?w1 = "w\<lparr>trace := trace w @ t1\<rparr>"
  have r1: "load_all_documents L (self, w) = (Inr docs, (self, ?w1))"
    using l ld by (cases "load_all_documents L (self, w)") simp
  let ?w2 = "?w1\<lparr>trace := trace ?w1 @
                 [Print [S ''Chunking documents...''], Split,
                  Print [S ''Number of chunks:'', N (length chunks),
                         S [CHR 0x0A, CHR 0x0A]]]\<rparr>"
  have r2: "chunk_documents L docs (self, ?w1) = (Inr chunks, (self, ?w2))"
    using sp ch by (simp add: chunk_documents_cases)
  let ?w3 = "emit (Print [S ''Preparing vectordb...'']) ?w2"
  let ?w4 = "?w3\<lparr>trace := trace ?w3 @ [Store dir],
                 vector_store := (vector_store ?w3)
                     (dir := vector_store ?w3 dir @
                        zip vectors (zip (map page_content chunks)
                                         (map metadata chunks)))\<rparr>"
  have r3: "Chroma_from_documents L chunks (embedding self) dir ?w3 =
      (Inr \<lparr>collection_dir = dir\<rparr>, ?w4)"
    using em sf by (simp add: Chroma_from_documents_cases)
  let ?w5 = "emit (Print [S ''Number of vectors in vectordb:'',
                            N (count ?w4 \<lparr>collection_dir = dir\<rparr>), S [CHR 0x0A, CHR 0x0A]])
               (emit (Print [S ''VectorDB is created and saved.'']) ?w4)"
  have "prepare_and_save_vectordb L (self, w) = (Inr \<lparr>collection_dir = dir\<rparr>, (self, ?w5))"
    unfolding prepare_and_save_vectordb_def using pd
    by (simp only: r1 r2 r3 prod.case sum.case Let_def option.case)
  moreover have "vector_store ?w5 = (vector_store w)
        (dir := vector_store w dir @
           zip vectors (zip (map page_content chunks) (map metadata chunks)))"
    by (simp add: emit_def)
  ultimately show ?thesis by blast
qed

section \<open>Construction\<close>

lemma init_world:
  "snd (init L dd td rd eng cs co tcs tco st w) = emit (Print [S (''Splitter type: '' @ st)]) w"
  by (simp add: init_def Let_def split: sum.splits prod.splits)

lemma init_recursive:
  "init L dd td rd eng cs co tcs tco ''recursive'' w = (Inr self, w') \<Longrightarrow>
     splitter_type self = ''recursive'' \<and> persist_directory self = Some rd \<and>
     data_directory self = dd \<and>
     (\<exists>sp. text_splitter self = Some sp \<and>
        RecursiveCharacterTextSplitter L cs co [[CHR 0x0A, CHR 0x0A], [CHR 0x0A], '' '', ''''] = Inr sp)"
  by (auto simp: init_def Let_def split: sum.splits)

lemma init_token:
  "init L dd td rd eng cs co tcs tco ''token'' w = (Inr self, w') \<Longrightarrow>
     splitter_type self = ''token'' \<and> persist_directory self = Some td \<and>
     data_directory self = dd \<and>
     (\<exists>sp. text_splitter self = Some sp \<and> TokenTextSplitter L tcs tco = Inr sp)"
  by (auto simp: init_def Let_def split: sum.splits)

text \<open>
  Claim C1, as amended. The constructor checks nothing itself and has no
  \<^verbatim>\<open>ConfigurationError\<close>. With \<^verbatim>\<open>splitter_type\<close> \<^verbatim>\<open>"recursive"\<close> or \<^verbatim>\<open>"token"\<close> it raises
  exactly when the constructor of that policy's splitter raises (called with
  \<^verbatim>\<open>chunk_size\<close>, \<^verbatim>\<open>chunk_overlap\<close>, respectively \<^verbatim>\<open>token_chunk_size\<close>,
  \<^verbatim>\<open>token_chunk_overlap\<close>), or else when the constructor of \<^verbatim>\<open>OpenAIEmbeddings\<close> raises,
  and then it raises that exception. Whatever the outcome, construction only prints the
  splitter type: it lists no directory, loads no document and persists nothing.
\<close>

theorem init_raises_only_what_a_constructor_raises:
  assumes "st = ''recursive'' \<or> st = ''token''"
  shows "snd (init L dd td rd eng cs co tcs tco st w) =
           emit (Print [S (''Splitter type: '' @ st)]) w \<and>
         loaded_paths (events_since w (snd (init L dd td rd eng cs co tcs tco st w))) = [] \<and>
         listed_dirs (events_since w (snd (init L dd td rd eng cs co tcs tco st w))) = [] \<and>
         vector_store (snd (init L dd td rd eng cs co tcs tco st w)) = vector_store w \<and>
         (fst (init L dd td rd eng cs co tcs tco st w) = Inl e \<longleftrightarrow>
            (if st = ''recursive''
             then RecursiveCharacterTextSplitter L cs co
                    [[CHR 0x0A, CHR 0x0A], [CHR 0x0A], '' '', ''''] = Inl e \<or>
                  (\<exists>sp. RecursiveCharacterTextSplitter L cs co
                    [[CHR 0x0A, CHR 0x0A], [CHR 0x0A], '' '', ''''] = Inr sp) \<and>
                  OpenAIEmbeddings L eng = Inl e
             else TokenTextSplitter L tcs tco = Inl e \<or>
                  (\<exists>sp. TokenTextSplitter L tcs tco = Inr sp) \<and>
                  OpenAIEmbeddings L eng = Inl e))"
proof -
  have w: "snd (init L dd td rd eng cs co tcs tco st w) =
           emit (Print [S (''Splitter type: '' @ st)]) w"
    by (rule init_world)
  have r: "fst (init L dd td rd eng cs co tcs tco st w) = Inl e \<longleftrightarrow>
            (if st = ''recursive''
             then RecursiveCharacterTextSplitter L cs co
                    [[CHR 0x0A, CHR 0x0A], [CHR 0x0A], '' '', ''''] = Inl e \<or>
                  (\<exists>sp. RecursiveCharacterTextSplitter L cs co
                    [[CHR 0x0A, CHR 0x0A], [CHR 0x0A], '' '', ''''] = Inr sp) \<and>
                  OpenAIEmbeddings L eng = Inl e
             else TokenTextSplitter L tcs tco = Inl e \<or>
                  (\<exists>sp. TokenTextSplitter L tcs tco = Inr sp) \<and>
                  OpenAIEmbeddings L eng = Inl e)"
    using assms by (auto simp: init_def Let_def split: sum.splits)
  show ?thesis
    unfolding w using r by (simp add: emit_def)
qed

text \<open>
  At a splitter library that rejects an overlap larger than the chunk size,
  \<^verbatim>\<open>chunk_size = 50\<close> and \<^verbatim>\<open>chunk_overlap = 500\<close> raise that library's \<^verbatim>\<open>ValueError\<close>.
\<close>

theorem init_raises_only_what_a_constructor_raises_witness:
  "fst (init stub_libs (PyStr ''data'') ''token_db'' ''recursive_db'' ''ada'' 50 500 200 20
          ''recursive'' empty_world) = Inl (Exception ''ValueError'' ''larger chunk overlap'') \<and>
   snd (init stub_libs (PyStr ''data'') ''token_db'' ''recursive_db'' ''ada'' 50 500 200 20
          ''recursive'' empty_world) =
     emit (Print [S (''Splitter type: '' @ ''recursive'')]) empty_world"
  using init_raises_only_what_a_constructor_raises[of "''recursive''" stub_libs
      "PyStr ''data''" "''token_db''" "''recursive_db''" "''ada''" 50 500 200 20 empty_world
      "Exception ''ValueError'' ''larger chunk overlap''"]
  by (simp add: stub_libs_def)

text \<open>
  Claim C1 as stated fails: a \<^verbatim>\<open>splitter_type\<close> that is neither \<^verbatim>\<open>"recursive"\<close> nor
  \<^verbatim>\<open>"token"\<close>, with sizes 0, constructs an instance and raises nothing; and with
  \<^verbatim>\<open>"recursive"\<close>, \<^verbatim>\<open>chunk_overlap = chunk_size = 500\<close> is accepted when the splitter
  library accepts it.
\<close>

theorem init_accepts_invalid_configuration:
  "fst (init stub_libs (PyStr ''data'') ''token_db'' ''recursive_db'' ''ada'' 0 0 0 0
          ''character'' empty_world) =
     Inr \<lparr>embedding_model_engine = ''ada'', splitter_type = ''character'',
          text_splitter = None, persist_directory = None,
          data_directory = PyStr ''data'', embedding = ''ada''\<rparr> \<and>
   fst (init stub_libs (PyStr ''data'') ''token_db'' ''recursive_db'' ''ada'' 500 500 0 0
          ''recursive'' empty_world) =
     Inr \<lparr>embedding_model_engine = ''ada'', splitter_type = ''recursive'',
          text_splitter = Some (Recursive 500 500 [[CHR 0x0A, CHR 0x0A], [CHR 0x0A], '' '', '''']),
          persist_directory = Some ''recursive_db'',
          data_directory = PyStr ''data'', embedding = ''ada''\<rparr>"
  by (simp add: init_def stub_libs_def)

text \<open>
  Claim C2 at the failing input \<^verbatim>\<open>splitter_type = "bogus"\<close>: construction succeeds and the
  instance has no \<^verbatim>\<open>text_splitter\<close> and no \<^verbatim>\<open>persist_directory\<close>, so no splitter policy is
  active and no directory is bound. The first run then loads every document and only
  afterwards fails, with the \<^verbatim>\<open>AttributeError\<close> of the missing \<^verbatim>\<open>text_splitter\<close>.
\<close>

theorem unrecognised_splitter_type_binds_nothing:
  "fst (init stub_libs (PyStr ''data'') ''token_db'' ''recursive_db'' ''ada'' 500 50 200 20
          ''bogus'' empty_world) =
     Inr \<lparr>embedding_model_engine = ''ada'', splitter_type = ''bogus'',
          text_splitter = None, persist_directory = None,
          data_directory = PyStr ''data'', embedding = ''ada''\<rparr> \<and>
   fst (prepare_and_save_vectordb stub_libs
          (\<lparr>embedding_model_engine = ''ada'', splitter_type = ''bogus'',
            text_splitter = None, persist_directory = None,
            data_directory = PyStr ''data'', embedding = ''ada''\<rparr>, empty_world)) =
     Inl (AttributeError ''text_splitter'') \<and>
   loaded_paths (trace (snd (snd (prepare_and_save_vectordb stub_libs
          (\<lparr>embedding_model_engine = ''ada'', splitter_type = ''bogus'',
            text_splitter = None, persist_directory = None,
            data_directory = PyStr ''data'', embedding = ''ada''\<rparr>, empty_world))))) =
     [PyStr ''data/a.pdf'', PyStr ''data/b.pdf'']"
  by (simp add: init_def stub_libs_def prepare_and_save_vectordb_def load_all_documents_def
        chunk_documents_def report_loaded_def emit_def empty_world_def Let_def)

text \<open>
  Claim C5. When every file loads, \<^verbatim>\<open>__load_all_documents\<close> returns the pages of the files
  concatenated, so its length is the sum of the page counts. In list mode the files are
  loaded in the order of the list, each path's pages contiguous; in directory mode they
  are loaded in the order of the directory listing, as \<^verbatim>\<open>os.listdir\<close> gave it, each
  name joined to the directory.
\<close>

theorem load_all_documents_one_document_per_page_in_order:
  "(data_directory self = PyList paths \<and>
    (\<forall>p\<in>set paths. PyPDFLoader_load L p = Inr (pages p)) \<longrightarrow>
      fst (load_all_documents L (self, w)) = Inr (concat (map pages paths)) \<and>
      length (concat (map pages paths)) = sum_list (map (\<lambda>p. length (pages p)) paths) \<and>
      loaded_paths (events_since w (snd (snd (load_all_documents L (self, w))))) = paths) \<and>
   (as_list (data_directory self) = None \<and>
    os_listdir L (data_directory self) = Inr names \<and>
    (\<forall>n\<in>set names. os_path_join L (data_directory self) n = Inr (pth n) \<and>
                     PyPDFLoader_load L (pth n) = Inr (pages' n)) \<longrightarrow>
      fst (load_all_documents L (self, w)) = Inr (concat (map pages' names)) \<and>
      length (concat (map pages' names)) = sum_list (map (\<lambda>n. length (pages' n)) names) \<and>
      loaded_paths (events_since w (snd (snd (load_all_documents L (self, w))))) =
        map pth names)"
proof (intro conjI impI)
  assume a: "data_directory self = PyList paths \<and>
    (\<forall>p\<in>set paths. PyPDFLoader_load L p = Inr (pages p))"
  then have eq: "load_all_documents L (self, w) =
    (Inr (concat (map pages paths)),
     (self, w\<lparr>trace := trace w @
        Print [S ''Loading the uploaded documents...''] # map Load paths @
        [Print [S ''Number of loaded documents:'', N (length paths)],
         Print [S ''Number of pages:'', N (length (concat (map pages paths))),
                S [CHR 0x0A, CHR 0x0A]]]\<rparr>))"
    by (intro load_all_documents_list_ok) simp_all
  show "fst (load_all_documents L (self, w)) = Inr (concat (map pages paths))"
    by (simp add: eq)
  show "loaded_paths (events_since w (snd (snd (load_all_documents L (self, w))))) = paths"
    by (simp add: eq)
  show "length (concat (map pages paths)) = sum_list (map (\<lambda>p. length (pages p)) paths)"
    by (simp add: length_concat comp_def)
next
  assume a: "as_list (data_directory self) = None \<and>
    os_listdir L (data_directory self) = Inr names \<and>
    (\<forall>n\<in>set names. os_path_join L (data_directory self) n = Inr (pth n) \<and>
                     PyPDFLoader_load L (pth n) = Inr (pages' n))"
  then have eq: "load_all_documents L (self, w) =
    (Inr (concat (map pages' names)),
     (self, w\<lparr>trace := trace w @
        Print [S ''Loading documents manually...''] # Listdir (data_directory self) #
        map Load (map pth names) @
        [Print [S ''Number of loaded documents:'', N (length names)],
         Print [S ''Number of pages:'', N (length (concat (map pages' names))),
                S [CHR 0x0A, CHR 0x0A]]]\<rparr>))"
    by (intro load_all_documents_dir_ok) simp_all
  show "fst (load_all_documents L (self, w)) = Inr (concat (map pages' names))"
    by (simp add: eq)
  show "loaded_paths (events_since w (snd (snd (load_all_documents L (self, w))))) =
        map pth names"
    by (simp add: eq)
  show "length (concat (map pages' names)) = sum_list (map (\<lambda>n. length (pages' n)) names)"
    by (simp add: length_concat comp_def)
qed

text \<open>
  A directory with \<^verbatim>\<open>a.pdf\<close> (2 pages) and \<^verbatim>\<open>b.pdf\<close> (3 pages) gives 5 documents in
  listing order; the list \<^verbatim>\<open>[b.pdf, a.pdf]\<close> gives the pages of \<^verbatim>\<open>b.pdf\<close> first.
\<close>

theorem load_all_documents_one_document_per_page_in_order_witness:
  "os_listdir stub_libs (PyStr ''data'') = Inr [''a.pdf'', ''b.pdf''] \<and>
   fst (load_all_documents stub_libs (stub_pipeline (PyStr ''data''), empty_world)) =
     Inr [pdf_page ''data/a.pdf'' 0, pdf_page ''data/a.pdf'' 1,
          pdf_page ''data/b.pdf'' 0, pdf_page ''data/b.pdf'' 1, pdf_page ''data/b.pdf'' 2] \<and>
   fst (load_all_documents stub_libs
          (stub_pipeline (PyList [PyStr ''data/b.pdf'', PyStr ''data/a.pdf'']), empty_world)) =
     Inr [pdf_page ''data/b.pdf'' 0, pdf_page ''data/b.pdf'' 1, pdf_page ''data/b.pdf'' 2,
          pdf_page ''data/a.pdf'' 0, pdf_page ''data/a.pdf'' 1] \<and>
   loaded_paths (events_since empty_world (snd (snd (load_all_documents stub_libs
          (stub_pipeline (PyList [PyStr ''data/b.pdf'', PyStr ''data/a.pdf'']), empty_world))))) =
     [PyStr ''data/b.pdf'', PyStr ''data/a.pdf'']"
  using load_all_documents_one_document_per_page_in_order[
      of "stub_pipeline (PyList [PyStr ''data/b.pdf'', PyStr ''data/a.pdf''])"
         "[PyStr ''data/b.pdf'', PyStr ''data/a.pdf'']" stub_libs
         "\<lambda>p. projr (PyPDFLoader_load stub_libs p)" empty_world "[]" "\<lambda>n. PyNone" "\<lambda>n. []"]
    load_all_documents_one_document_per_page_in_order[
      of "stub_pipeline (PyStr ''data'')" "[]" stub_libs "\<lambda>p. []" empty_world
         "[''a.pdf'', ''b.pdf'']" "\<lambda>n. PyStr (''data/'' @ n)"
         "\<lambda>n. projr (PyPDFLoader_load stub_libs (PyStr (''data/'' @ n)))"]
  by (simp add: stub_libs_def stub_pipeline_def)

text \<open>
  Claim C4, as amended. In directory mode no name of the listing is filtered out: each is
  joined to the directory and handed to the loader. If the loader raises for a file of
  the listing, \<^verbatim>\<open>__load_all_documents\<close> raises and so does the run, the vector index is
  never called and the persisted store is what it was. The class has no
  \<^verbatim>\<open>DocumentLoadError\<close> and adds nothing to an exception: what is raised is exactly the
  exception the loader raised for the first file of the listing that fails, which is the
  last path handed to the loader; it is the exception of the file \<open>n\<close> itself when every
  file before \<open>n\<close> loads.
\<close>

theorem corrupt_file_fails_the_load_and_nothing_is_persisted:
  assumes nl: "as_list (data_directory self) = None"
    and ls: "os_listdir L (data_directory self) = Inr names"
    and n: "n \<in> set names"
    and j: "os_path_join L (data_directory self) n = Inr p"
    and bad: "PyPDFLoader_load L p = Inl e"
  shows "(\<exists>e'. fst (load_all_documents L (self, w)) = Inl e' \<and>
               fst (prepare_and_save_vectordb L (self, w)) = Inl e') \<and>
         vector_store (snd (snd (prepare_and_save_vectordb L (self, w)))) = vector_store w \<and>
         stored_dirs (events_since w (snd (snd (prepare_and_save_vectordb L (self, w))))) = [] \<and>
         (\<forall>pre post. names = pre @ n # post \<and>
             (\<forall>m\<in>set pre. \<exists>q ps. os_path_join L (data_directory self) m = Inr q \<and>
                                   PyPDFLoader_load L q = Inr ps) \<longrightarrow>
             fst (load_all_documents L (self, w)) = Inl e \<and>
             fst (prepare_and_save_vectordb L (self, w)) = Inl e \<and>
             last (loaded_paths (events_since w
                     (snd (snd (prepare_and_save_vectordb L (self, w)))))) = p) \<and>
         ((\<forall>m\<in>set names. \<exists>q. os_path_join L (data_directory self) m = Inr q) \<longrightarrow>
            (\<exists>pre m post q e'. names = pre @ m # post \<and>
               (\<forall>k\<in>set pre. \<exists>r ps. os_path_join L (data_directory self) k = Inr r \<and>
                                     PyPDFLoader_load L r = Inr ps) \<and>
               os_path_join L (data_directory self) m = Inr q \<and>
               PyPDFLoader_load L q = Inl e' \<and>
               fst (load_all_documents L (self, w)) = Inl e' \<and>
               fst (prepare_and_save_vectordb L (self, w)) = Inl e' \<and>
               last (loaded_paths (events_since w
                       (snd (snd (prepare_and_save_vectordb L (self, w)))))) = q))"
proof -
  obtain e' where e': "fst (load_all_documents L (self, w)) = Inl e'"
    using load_all_documents_dir_some_failure[OF nl ls n j bad] by blast
  note run = prepare_load_error[OF e']
  obtain t where t: "snd (load_all_documents L (self, w)) = (self, w\<lparr>trace := trace w @ t\<rparr>)"
    "stored_dirs t = []"
    using load_all_documents_frame[of L self w] by blast
  have 1: "\<exists>e'. fst (load_all_documents L (self, w)) = Inl e' \<and>
               fst (prepare_and_save_vectordb L (self, w)) = Inl e'"
    using e' run by simp
  have 2: "vector_store (snd (snd (prepare_and_save_vectordb L (self, w)))) = vector_store w"
    using run t by simp
  have 3: "stored_dirs (events_since w (snd (snd (prepare_and_save_vectordb L (self, w))))) = []"
    using run t by simp
  have first: "fst (load_all_documents L (self, w)) = Inl x \<and>
           fst (prepare_and_save_vectordb L (self, w)) = Inl x \<and>
           last (loaded_paths (events_since w
                   (snd (snd (prepare_and_save_vectordb L (self, w)))))) = q"
    if split: "names = pre @ m # post"
      and ok: "\<forall>k\<in>set pre. \<exists>r ps. os_path_join L (data_directory self) k = Inr r \<and>
                                   PyPDFLoader_load L r = Inr ps"
      and jm: "os_path_join L (data_directory self) m = Inr q"
      and bm: "PyPDFLoader_load L q = Inl x"
    for pre m post q x
  proof -
    from ok obtain pth where
      "\<forall>k\<in>set pre. \<exists>ps. os_path_join L (data_directory self) k = Inr (pth k) \<and>
                         PyPDFLoader_load L (pth k) = Inr ps"
      using bchoice[of "set pre" "\<lambda>k r. \<exists>ps. os_path_join L (data_directory self) k = Inr r \<and>
                                   PyPDFLoader_load L r = Inr ps"] by blast
    then obtain pages where pg:
      "\<forall>k\<in>set pre. os_path_join L (data_directory self) k = Inr (pth k) \<and>
                         PyPDFLoader_load L (pth k) = Inr (pages k)"
      using bchoice[of "set pre" "\<lambda>k ps. os_path_join L (data_directory self) k = Inr (pth k) \<and>
                                   PyPDFLoader_load L (pth k) = Inr ps"] by blast
    from ls split have ls': "os_listdir L (data_directory self) = Inr (pre @ m # post)" by simp
    note eq = load_all_documents_dir_first_failure[OF nl ls' pg jm bm, of w]
    then have l: "fst (load_all_documents L (self, w)) = Inl x" by simp
    from prepare_load_error[OF l] eq show ?thesis by simp
  qed
  have 4: "\<forall>pre post. names = pre @ n # post \<and>
             (\<forall>m\<in>set pre. \<exists>q ps. os_path_join L (data_directory self) m = Inr q \<and>
                                   PyPDFLoader_load L q = Inr ps) \<longrightarrow>
             fst (load_all_documents L (self, w)) = Inl e \<and>
             fst (prepare_and_save_vectordb L (self, w)) = Inl e \<and>
             last (loaded_paths (events_since w
                     (snd (snd (prepare_and_save_vectordb L (self, w)))))) = p"
    using first[OF _ _ j bad] by blast
  have 5: "\<exists>pre m post q e'. names = pre @ m # post \<and>
               (\<forall>k\<in>set pre. \<exists>r ps. os_path_join L (data_directory self) k = Inr r \<and>
                                     PyPDFLoader_load L r = Inr ps) \<and>
               os_path_join L (data_directory self) m = Inr q \<and>
               PyPDFLoader_load L q = Inl e' \<and>
               fst (load_all_documents L (self, w)) = Inl e' \<and>
               fst (prepare_and_save_vectordb L (self, w)) = Inl e' \<and>
               last (loaded_paths (events_since w
                       (snd (snd (prepare_and_save_vectordb L (self, w)))))) = q"
    if joins: "\<forall>m\<in>set names. \<exists>q. os_path_join L (data_directory self) m = Inr q"
  proof -
    let ?bad = "\<lambda>m. \<exists>q x. os_path_join L (data_directory self) m = Inr q \<and>
                         PyPDFLoader_load L q = Inl x"
    from n j bad have "\<exists>m\<in>set names. ?bad m" by blast
    from split_list_first_prop[OF this] obtain pre m post where
      sp: "names = pre @ m # post" and bm: "?bad m" and gd: "\<forall>k\<in>set pre. \<not> ?bad k"
      by blast
    from bm obtain q x where jm: "os_path_join L (data_directory self) m = Inr q"
      and lm: "PyPDFLoader_load L q = Inl x" by blast
    have ok: "\<forall>k\<in>set pre. \<exists>r ps. os_path_join L (data_directory self) k = Inr r \<and>
                                   PyPDFLoader_load L r = Inr ps"
    proof
      fix k assume k: "k \<in> set pre"
      with sp joins obtain r where r: "os_path_join L (data_directory self) k = Inr r" by auto
      from gd k r have "\<forall>x. PyPDFLoader_load L r \<noteq> Inl x" by blast
      then obtain ps where "PyPDFLoader_load L r = Inr ps"
        by (cases "PyPDFLoader_load L r") auto
      with r show "\<exists>r ps. os_path_join L (data_directory self) k = Inr r \<and>
                                   PyPDFLoader_load L r = Inr ps" by blast
    qed
    from first[OF sp ok jm lm] sp ok jm lm show ?thesis by blast
  qed
  from 1 2 3 4 5 show ?thesis by blast
qed

text \<open>
  Claim C4 as stated fails: with two unreadable files, \<^verbatim>\<open>corrupt.pdf\<close> fails to load, yet
  the load raises the parser's exception for the earlier \<^verbatim>\<open>scan.pdf\<close>, whose message
  names no file and whose class is the library's own.
\<close>

theorem loader_error_is_not_a_load_error_naming_the_file:
  "os_listdir stub_libs (PyStr ''scans'') = Inr [''scan.pdf'', ''corrupt.pdf''] \<and>
   PyPDFLoader_load stub_libs (PyStr ''scans/corrupt.pdf'') =
     Inl (Exception ''PdfReadError'' ''scans/corrupt.pdf'') \<and>
   PyPDFLoader_load stub_libs (PyStr ''scans/scan.pdf'') =
     Inl (Exception ''PdfReadError'' ''EOF marker not found'') \<and>
   fst (load_all_documents stub_libs (stub_pipeline (PyStr ''scans''), empty_world)) =
     Inl (Exception ''PdfReadError'' ''EOF marker not found'')"
  by (simp add: load_all_documents_def stub_libs_def stub_pipeline_def emit_def Let_def)

text \<open>
  A listing \<^verbatim>\<open>a.pdf, corrupt.pdf, b.pdf\<close>: the run fails with the loader's error naming
  \<^verbatim>\<open>inbox/corrupt.pdf\<close> and the store keeps its earlier entries only.
\<close>

theorem corrupt_file_fails_the_load_and_nothing_is_persisted_witness:
  "os_listdir stub_libs (PyStr ''inbox'') = Inr [''a.pdf'', ''corrupt.pdf'', ''b.pdf''] \<and>
   PyPDFLoader_load stub_libs (PyStr ''inbox/corrupt.pdf'') =
     Inl (Exception ''PdfReadError'' ''inbox/corrupt.pdf'') \<and>
   fst (load_all_documents stub_libs (stub_pipeline (PyStr ''inbox''), used_world)) =
     Inl (Exception ''PdfReadError'' ''inbox/corrupt.pdf'') \<and>
   fst (prepare_and_save_vectordb stub_libs (stub_pipeline (PyStr ''inbox''), used_world)) =
     Inl (Exception ''PdfReadError'' ''inbox/corrupt.pdf'') \<and>
   vector_store (snd (snd (prepare_and_save_vectordb stub_libs
       (stub_pipeline (PyStr ''inbox''), used_world)))) = vector_store used_world"
proof -
  have h: "as_list (data_directory (stub_pipeline (PyStr ''inbox''))) = None"
    "os_listdir stub_libs (data_directory (stub_pipeline (PyStr ''inbox''))) =
       Inr [''a.pdf'', ''corrupt.pdf'', ''b.pdf'']"
    "''corrupt.pdf'' \<in> set [''a.pdf'', ''corrupt.pdf'', ''b.pdf'']"
    "os_path_join stub_libs (data_directory (stub_pipeline (PyStr ''inbox''))) ''corrupt.pdf'' =
       Inr (PyStr ''inbox/corrupt.pdf'')"
    "PyPDFLoader_load stub_libs (PyStr ''inbox/corrupt.pdf'') =
       Inl (Exception ''PdfReadError'' ''inbox/corrupt.pdf'')"
    by (simp_all add: stub_libs_def stub_pipeline_def)
  have first: "[''a.pdf'', ''corrupt.pdf'', ''b.pdf''] = [''a.pdf''] @ ''corrupt.pdf'' # [''b.pdf''] \<and>
    (\<forall>m\<in>set [''a.pdf'']. \<exists>q ps.
        os_path_join stub_libs (data_directory (stub_pipeline (PyStr ''inbox''))) m = Inr q \<and>
        PyPDFLoader_load stub_libs q = Inr ps)"
    by (simp add: stub_libs_def stub_pipeline_def)
  from corrupt_file_fails_the_load_and_nothing_is_persisted[OF h, of used_world] first
  have "fst (load_all_documents stub_libs (stub_pipeline (PyStr ''inbox''), used_world)) =
     Inl (Exception ''PdfReadError'' ''inbox/corrupt.pdf'') \<and>
   fst (prepare_and_save_vectordb stub_libs (stub_pipeline (PyStr ''inbox''), used_world)) =
     Inl (Exception ''PdfReadError'' ''inbox/corrupt.pdf'') \<and>
   vector_store (snd (snd (prepare_and_save_vectordb stub_libs
       (stub_pipeline (PyStr ''inbox''), used_world)))) = vector_store used_world"
    by blast
  with h show ?thesis by (simp add: stub_pipeline_def)
qed



section \<open>What chunking reads\<close>

lemma init_text_splitter:
  "init L dd td rd eng cs co tcs tco st w = (Inr self, w') \<Longrightarrow>
     map_option Inr (text_splitter self) =
       (if st = ''recursive''
        then Some (RecursiveCharacterTextSplitter L cs co
                     [[CHR 0x0A, CHR 0x0A], [CHR 0x0A], '' '', ''''])
        else if st = ''token'' then Some (TokenTextSplitter L tcs tco)
        else None)"
  by (auto simp: init_def Let_def split: sum.splits if_splits)

text \<open>
  What \<^verbatim>\<open>__chunk_documents\<close> reads: two instances constructed with the same splitter
  configuration give, for the same documents, the same result and the same prints,
  whatever the world and the other constructor arguments.
\<close>

lemma chunk_documents_reads_splitter_and_documents_only:
  assumes a: "init L dd td rd eng cs co tcs tco st w0 = (Inr self, w1)"
    and b: "init L dd' td' rd' eng' cs co tcs tco st w0' = (Inr self', w1')"
  shows "fst (chunk_documents L docs (self, w)) = fst (chunk_documents L docs (self', w')) \<and>
         events_since w (snd (snd (chunk_documents L docs (self, w)))) =
           events_since w' (snd (snd (chunk_documents L docs (self', w'))))"
proof -
  have "map_option Inr (text_splitter self) =
        (map_option Inr (text_splitter self') :: (exn + 'a) option)"
    using init_text_splitter[OF a] init_text_splitter[OF b] by simp
  then have eq: "text_splitter self = text_splitter self'"
    by (cases "text_splitter self"; cases "text_splitter self'") simp_all
  show ?thesis
    using eq by (simp add: chunk_documents_cases split: option.splits sum.splits)
qed

section \<open>Errors of the stages\<close>








lemma init_persist_directory:
  "init L dd td rd eng cs co tcs tco st w = (Inr self, w') \<Longrightarrow>
     st = ''recursive'' \<or> st = ''token'' \<Longrightarrow>
     persist_directory self = Some (if st = ''recursive'' then rd else td)"
  by (auto simp: init_def Let_def split: sum.splits if_splits)

text \<open>
  Claim C8. An instance constructed with \<^verbatim>\<open>splitter_type = "recursive"\<close> is bound to
  \<^verbatim>\<open>recursive_vector_db_save_dir\<close> and one constructed with \<^verbatim>\<open>"token"\<close> to
  \<^verbatim>\<open>token_vector_db_save_dir\<close>. A run of \<^verbatim>\<open>prepare_and_save_vectordb\<close> on it calls the vector
  index with that directory only, leaves the entries persisted under every other
  directory as they were (so, when the two directories differ, it never writes to both),
  and when it succeeds it has called the index exactly once, on that directory.
\<close>

theorem each_policy_writes_only_its_own_directory:
  assumes a: "init L dd td rd eng cs co tcs tco st w0 = (Inr self, w1)"
    and st: "st = ''recursive'' \<or> st = ''token''"
  shows "persist_directory self = Some (if st = ''recursive'' then rd else td) \<and>
     set (stored_dirs (events_since w (snd (snd (prepare_and_save_vectordb L (self, w))))))
       \<subseteq> {if st = ''recursive'' then rd else td} \<and>
     (\<forall>d. d \<noteq> (if st = ''recursive'' then rd else td) \<longrightarrow>
        vector_store (snd (snd (prepare_and_save_vectordb L (self, w)))) d = vector_store w d) \<and>
     (\<forall>h. fst (prepare_and_save_vectordb L (self, w)) = Inr h \<longrightarrow>
        stored_dirs (events_since w (snd (snd (prepare_and_save_vectordb L (self, w))))) =
          [if st = ''recursive'' then rd else td] \<and>
        collection_dir h = (if st = ''recursive'' then rd else td))"
proof -
  define dir where "dir = (if st = ''recursive'' then rd else td)"
  have pd: "persist_directory self = Some dir"
    unfolding dir_def by (rule init_persist_directory[OF a st])
  obtain t1 t2 w' where f:
    "snd (prepare_and_save_vectordb L (self, w)) = (self, w')"
    "trace w' = trace w @ t1 @ t2"
    "stored_dirs t1 = []"
    "\<forall>d\<in>set (stored_dirs t2). persist_directory self = Some d"
    "\<forall>h. fst (prepare_and_save_vectordb L (self, w)) = Inr h \<longrightarrow>
            stored_dirs t2 = [collection_dir h]"
    "\<forall>d. persist_directory self \<noteq> Some d \<longrightarrow> vector_store w' d = vector_store w d"
    using prepare_and_save_vectordb_frame[of L self w] by blast
  have ev: "events_since w w' = t1 @ t2"
    using f(2) by (simp add: events_since_trace)
  have s: "snd (snd (prepare_and_save_vectordb L (self, w))) = w'"
    using f(1) by simp
  have 1: "set (stored_dirs (t1 @ t2)) \<subseteq> {dir}"
    using f(3,4) pd by auto
  have 2: "\<forall>d. d \<noteq> dir \<longrightarrow> vector_store w' d = vector_store w d"
    using f(6) pd by auto
  have 3: "\<forall>h. fst (prepare_and_save_vectordb L (self, w)) = Inr h \<longrightarrow>
             stored_dirs (t1 @ t2) = [dir] \<and> collection_dir h = dir"
  proof (intro allI impI)
    fix h assume "fst (prepare_and_save_vectordb L (self, w)) = Inr h"
    with f(5) have e: "stored_dirs t2 = [collection_dir h]" by blast
    with f(4) pd have "collection_dir h = dir" by simp
    with e f(3) show "stored_dirs (t1 @ t2) = [dir] \<and> collection_dir h = dir" by simp
  qed
  have "persist_directory self = Some dir \<and>
     set (stored_dirs (events_since w (snd (snd (prepare_and_save_vectordb L (self, w))))))
       \<subseteq> {dir} \<and>
     (\<forall>d. d \<noteq> dir \<longrightarrow>
        vector_store (snd (snd (prepare_and_save_vectordb L (self, w)))) d = vector_store w d) \<and>
     (\<forall>h. fst (prepare_and_save_vectordb L (self, w)) = Inr h \<longrightarrow>
        stored_dirs (events_since w (snd (snd (prepare_and_save_vectordb L (self, w))))) =
          [dir] \<and>
        collection_dir h = dir)"
    unfolding s ev by (intro conjI pd 1 2 3)
  then show ?thesis unfolding dir_def .
qed

text \<open>
  A recursive pipeline leaves what is stored under the token directory untouched.
\<close>

theorem each_policy_writes_only_its_own_directory_witness:
  "fst (init stub_libs (PyStr ''data'') ''token_db'' ''recursive_db'' ''ada'' 500 50 200 20
          ''recursive'' empty_world) = Inr (stub_pipeline (PyStr ''data'')) \<and>
   ''token_db'' \<noteq> ''recursive_db'' \<and>
   vector_store (snd (snd (prepare_and_save_vectordb stub_libs
       (stub_pipeline (PyStr ''data''), used_world)))) ''token_db'' =
     vector_store used_world ''token_db''"
proof -
  have a: "init stub_libs (PyStr ''data'') ''token_db'' ''recursive_db'' ''ada'' 500 50 200 20
          ''recursive'' empty_world = (Inr (stub_pipeline (PyStr ''data'')),
             emit (Print [S ''Splitter type: recursive'']) empty_world)"
    by (simp add: init_def stub_libs_def stub_pipeline_def)
  have "''recursive'' = ''recursive'' \<or> ''recursive'' = ''token''" by simp
  from each_policy_writes_only_its_own_directory[OF a this, of used_world]
  have "\<forall>d. d \<noteq> ''recursive_db'' \<longrightarrow>
        vector_store (snd (snd (prepare_and_save_vectordb stub_libs
          (stub_pipeline (PyStr ''data''), used_world)))) d = vector_store used_world d"
    by simp
  then have "vector_store (snd (snd (prepare_and_save_vectordb stub_libs
       (stub_pipeline (PyStr ''data''), used_world)))) ''token_db'' =
     vector_store used_world ''token_db''"
    by simp
  with a show ?thesis by simp
qed

text \<open>
  Claim C3, as amended. When the documents load, the splitter returns the chunks, every
  chunk embeds and the storage backend does not fail, \<^verbatim>\<open>prepare_and_save_vectordb\<close>
  returns the index of the instance's persistence directory, and one entry per chunk has
  been added to it: its \<^verbatim>\<open>count()\<close> is the number of entries the directory already held
  plus the number of chunks, hence the number of chunks when the directory was empty.
\<close>

theorem index_count_is_prior_entries_plus_chunks:
  assumes ld: "fst (load_all_documents L (self, w)) = Inr docs"
    and sp: "text_splitter self = Some sp"
    and ch: "split_documents L sp docs = Inr chunks"
    and pd: "persist_directory self = Some dir"
    and em: "\<forall>c\<in>set chunks. \<exists>v. embed L (embedding self) (page_content c) = Inr v"
    and sf: "storage_fault L dir = None"
  shows "fst (chunk_documents L docs (snd (load_all_documents L (self, w)))) = Inr chunks \<and>
     (\<exists>w'. prepare_and_save_vectordb L (self, w) =
             (Inr \<lparr>collection_dir = dir\<rparr>, (self, w')) \<and>
        count w' \<lparr>collection_dir = dir\<rparr> = length (vector_store w dir) + length chunks \<and>
        (vector_store w dir = [] \<longrightarrow>
           count w' \<lparr>collection_dir = dir\<rparr> = length chunks))"
proof -
  obtain t1 where l: "snd (load_all_documents L (self, w)) = (self, w\<lparr>trace := trace w @ t1\<rparr>)"
    using load_all_documents_frame[of L self w] by blast
  have 1: "fst (chunk_documents L docs (snd (load_all_documents L (self, w)))) = Inr chunks"
    unfolding l using sp ch by (simp add: chunk_documents_cases)
  from em obtain vectors where
    v: "embed_all (embed L (embedding self)) (map page_content chunks) = Inr vectors"
    using embed_all_ok[of "map page_content chunks" "embed L (embedding self)"] by auto
  from embed_all_length[OF v] have len: "length vectors = length chunks" by simp
  from prepare_success[OF ld sp ch pd v sf] obtain w' where
    w': "prepare_and_save_vectordb L (self, w) = (Inr \<lparr>collection_dir = dir\<rparr>, (self, w'))"
      "vector_store w' = (vector_store w)
        (dir := vector_store w dir @
           zip vectors (zip (map page_content chunks) (map metadata chunks)))"
    by blast
  have "count w' \<lparr>collection_dir = dir\<rparr> = length (vector_store w dir) + length chunks"
    using w'(2) len by (simp add: count_def)
  with w'(1) 1 show ?thesis by auto
qed

text \<open>
  The specification's example: \<^verbatim>\<open>a.pdf\<close> (2 pages) and \<^verbatim>\<open>b.pdf\<close> (3 pages), one chunk per
  page, an empty persistence directory: the index counts 5.
\<close>

theorem index_count_is_prior_entries_plus_chunks_witness:
  "fst (load_all_documents stub_libs (stub_pipeline (PyStr ''data''), empty_world)) =
     Inr [pdf_page ''data/a.pdf'' 0, pdf_page ''data/a.pdf'' 1,
          pdf_page ''data/b.pdf'' 0, pdf_page ''data/b.pdf'' 1, pdf_page ''data/b.pdf'' 2] \<and>
   storage_fault stub_libs ''recursive_db'' = None \<and>
   vector_store empty_world ''recursive_db'' = [] \<and>
   fst (prepare_and_save_vectordb stub_libs (stub_pipeline (PyStr ''data''), empty_world)) =
     Inr \<lparr>collection_dir = ''recursive_db''\<rparr> \<and>
   count (snd (snd (prepare_and_save_vectordb stub_libs
            (stub_pipeline (PyStr ''data''), empty_world))))
     \<lparr>collection_dir = ''recursive_db''\<rparr> = 5"
proof -
  let ?docs = "[pdf_page ''data/a.pdf'' 0, pdf_page ''data/a.pdf'' 1,
          pdf_page ''data/b.pdf'' 0, pdf_page ''data/b.pdf'' 1, pdf_page ''data/b.pdf'' 2]"
  have ld: "fst (load_all_documents stub_libs (stub_pipeline (PyStr ''data''), empty_world)) =
     Inr ?docs"
    by (simp add: load_all_documents_def stub_libs_def stub_pipeline_def emit_def Let_def
          report_loaded_def)
  have sp: "text_splitter (stub_pipeline (PyStr ''data'')) =
      Some (Recursive 500 50 [[CHR 0x0A, CHR 0x0A], [CHR 0x0A], '' '', ''''])"
    by (simp add: stub_pipeline_def)
  have ch: "split_documents stub_libs
      (Recursive 500 50 [[CHR 0x0A, CHR 0x0A], [CHR 0x0A], '' '', '''']) ?docs = Inr ?docs"
    by (simp add: stub_libs_def)
  have pd: "persist_directory (stub_pipeline (PyStr ''data'')) = Some ''recursive_db''"
    by (simp add: stub_pipeline_def)
  have em: "\<forall>c\<in>set ?docs. \<exists>v. embed stub_libs (embedding (stub_pipeline (PyStr ''data'')))
      (page_content c) = Inr v"
    by (simp add: stub_libs_def stub_pipeline_def)
  have sf: "storage_fault stub_libs ''recursive_db'' = None"
    by (simp add: stub_libs_def)
  have e: "vector_store empty_world ''recursive_db'' = []"
    by (simp add: empty_world_def)
  from index_count_is_prior_entries_plus_chunks[OF ld sp ch pd em sf]
  obtain w' where w': "prepare_and_save_vectordb stub_libs
        (stub_pipeline (PyStr ''data''), empty_world) =
      (Inr \<lparr>collection_dir = ''recursive_db''\<rparr>, (stub_pipeline (PyStr ''data''), w'))"
    "count w' \<lparr>collection_dir = ''recursive_db''\<rparr> =
       length (vector_store empty_world ''recursive_db'') + length ?docs"
    by blast
  have "fst (prepare_and_save_vectordb stub_libs (stub_pipeline (PyStr ''data''), empty_world)) =
     Inr \<lparr>collection_dir = ''recursive_db''\<rparr> \<and>
   count (snd (snd (prepare_and_save_vectordb stub_libs
            (stub_pipeline (PyStr ''data''), empty_world))))
     \<lparr>collection_dir = ''recursive_db''\<rparr> = 5"
    unfolding w' by (simp add: w'(2) e)
  with ld sf e show ?thesis by simp
qed

text \<open>
  Claim C3 as stated fails when the persistence directory already holds an entry: the
  same run yields 5 chunks and an index that counts 6.
\<close>

theorem index_count_exceeds_chunks_on_a_used_directory:
  "fst (prepare_and_save_vectordb stub_libs (stub_pipeline (PyStr ''data''), used_world)) =
     Inr \<lparr>collection_dir = ''recursive_db''\<rparr> \<and>
   length (projr (fst (chunk_documents stub_libs
       (projr (fst (load_all_documents stub_libs (stub_pipeline (PyStr ''data''), used_world))))
       (snd (load_all_documents stub_libs (stub_pipeline (PyStr ''data''), used_world)))))) = 5 \<and>
   count (snd (snd (prepare_and_save_vectordb stub_libs
            (stub_pipeline (PyStr ''data''), used_world))))
     \<lparr>collection_dir = ''recursive_db''\<rparr> = 6"
  by (simp add: prepare_and_save_vectordb_def load_all_documents_def chunk_documents_def
        Chroma_from_documents_def report_loaded_def count_def
        stub_libs_def stub_pipeline_def emit_def used_world_def pdf_page_def Let_def)

lemma load_all_documents_empty:
  assumes "data_directory self = PyList [] \<or>
     (as_list (data_directory self) = None \<and> os_listdir L (data_directory self) = Inr [])"
  shows "fst (load_all_documents L (self, w)) = Inr []"
  using assms
proof (elim disjE conjE)
  assume a: "data_directory self = PyList []"
  from load_all_documents_list_ok[of self "[]" L "\<lambda>p. []" w] a show ?thesis by simp
next
  assume nl: "as_list (data_directory self) = None"
    and ls: "os_listdir L (data_directory self) = Inr []"
  from load_all_documents_dir_ok[of self L "[]" "\<lambda>n. PyNone" "\<lambda>n. []" w] nl ls
  show ?thesis by simp
qed

text \<open>
  Claim C10, as amended. For an empty list of paths, or a directory whose listing is
  empty, \<^verbatim>\<open>__load_all_documents\<close> returns the empty list and raises nothing, and on an
  instance with a splitter chunking it yields no chunk. If the instance has its
  persistence directory and the storage backend does not fail,
  \<^verbatim>\<open>prepare_and_save_vectordb\<close> then succeeds, adds nothing to the store, and the index's
  \<^verbatim>\<open>count()\<close> is the number of entries its directory already held: 0 when it was empty.
\<close>

theorem empty_source_loads_nothing_and_adds_nothing:
  assumes src: "data_directory self = PyList [] \<or>
     (as_list (data_directory self) = None \<and> os_listdir L (data_directory self) = Inr [])"
  shows "fst (load_all_documents L (self, w)) = Inr [] \<and>
     (\<forall>sp. text_splitter self = Some sp \<longrightarrow>
        fst (chunk_documents L [] (snd (load_all_documents L (self, w)))) = Inr []) \<and>
     (\<forall>sp dir. text_splitter self = Some sp \<and> persist_directory self = Some dir \<and>
        storage_fault L dir = None \<longrightarrow>
        (\<exists>w'. prepare_and_save_vectordb L (self, w) =
                (Inr \<lparr>collection_dir = dir\<rparr>, (self, w')) \<and>
              vector_store w' = vector_store w \<and>
              count w' \<lparr>collection_dir = dir\<rparr> = length (vector_store w dir) \<and>
              (vector_store w dir = [] \<longrightarrow> count w' \<lparr>collection_dir = dir\<rparr> = 0)))"
proof (intro conjI allI impI)
  show ld: "fst (load_all_documents L (self, w)) = Inr []"
    by (rule load_all_documents_empty[OF src])
next
  fix sp assume sp: "text_splitter self = Some sp"
  obtain t1 where l: "snd (load_all_documents L (self, w)) = (self, w\<lparr>trace := trace w @ t1\<rparr>)"
    using load_all_documents_frame[of L self w] by blast
  show "fst (chunk_documents L [] (snd (load_all_documents L (self, w)))) = Inr []"
    unfolding l using sp by (simp add: chunk_documents_cases)
next
  fix sp dir
  assume h: "text_splitter self = Some sp \<and> persist_directory self = Some dir \<and>
        storage_fault L dir = None"
  have ld: "fst (load_all_documents L (self, w)) = Inr []"
    by (rule load_all_documents_empty[OF src])
  have ch: "split_documents L sp [] = Inr []" by simp
  have em: "embed_all (embed L (embedding self)) (map page_content ([] :: document list)) =
      Inr []" by simp
  from h have sp: "text_splitter self = Some sp"
    and pd: "persist_directory self = Some dir" and sf: "storage_fault L dir = None"
    by simp_all
  from prepare_success[OF ld sp ch pd em sf]
  have "\<exists>w'. prepare_and_save_vectordb L (self, w) =
            (Inr \<lparr>collection_dir = dir\<rparr>, (self, w')) \<and>
          vector_store w' = vector_store w"
    by simp
  then obtain w' where
    w1: "prepare_and_save_vectordb L (self, w) = (Inr \<lparr>collection_dir = dir\<rparr>, (self, w'))"
    and st: "vector_store w' = vector_store w"
    by blast
  from st have c: "count w' \<lparr>collection_dir = dir\<rparr> = length (vector_store w dir)"
    by (simp add: count_def)
  then have z: "vector_store w dir = [] \<longrightarrow> count w' \<lparr>collection_dir = dir\<rparr> = 0"
    by simp
  show "\<exists>w'. prepare_and_save_vectordb L (self, w) =
                (Inr \<lparr>collection_dir = dir\<rparr>, (self, w')) \<and>
              vector_store w' = vector_store w \<and>
              count w' \<lparr>collection_dir = dir\<rparr> = length (vector_store w dir) \<and>
              (vector_store w dir = [] \<longrightarrow> count w' \<lparr>collection_dir = dir\<rparr> = 0)"
    by (rule exI[of _ w']) (intro conjI w1 st c z)
qed

text \<open>
  An empty directory and an empty list load nothing and chunk to nothing; on an empty
  store the index counts 0.
\<close>

theorem empty_source_loads_nothing_and_adds_nothing_witness:
  "os_listdir stub_libs (PyStr ''empty'') = Inr [] \<and>
   fst (load_all_documents stub_libs (stub_pipeline (PyStr ''empty''), empty_world)) = Inr [] \<and>
   fst (load_all_documents stub_libs (stub_pipeline (PyList []), empty_world)) = Inr [] \<and>
   fst (chunk_documents stub_libs []
          (snd (load_all_documents stub_libs (stub_pipeline (PyStr ''empty''), empty_world)))) =
     Inr [] \<and>
   fst (prepare_and_save_vectordb stub_libs (stub_pipeline (PyStr ''empty''), empty_world)) =
     Inr \<lparr>collection_dir = ''recursive_db''\<rparr> \<and>
   count (snd (snd (prepare_and_save_vectordb stub_libs
            (stub_pipeline (PyStr ''empty''), empty_world))))
     \<lparr>collection_dir = ''recursive_db''\<rparr> = 0"
proof -
  let ?rc = "Recursive 500 50 [[CHR 0x0A, CHR 0x0A], [CHR 0x0A], '' '', '''']"
  have ls: "os_listdir stub_libs (PyStr ''empty'') = Inr []"
    by (simp add: stub_libs_def)
  have src: "data_directory (stub_pipeline (PyStr ''empty'')) = PyList [] \<or>
     (as_list (data_directory (stub_pipeline (PyStr ''empty''))) = None \<and>
      os_listdir stub_libs (data_directory (stub_pipeline (PyStr ''empty''))) = Inr [])"
    by (simp add: stub_libs_def stub_pipeline_def)
  have src2: "data_directory (stub_pipeline (PyList [])) = PyList [] \<or>
     (as_list (data_directory (stub_pipeline (PyList []))) = None \<and>
      os_listdir stub_libs (data_directory (stub_pipeline (PyList []))) = Inr [])"
    by (simp add: stub_pipeline_def)
  have sp: "text_splitter (stub_pipeline (PyStr ''empty'')) = Some ?rc"
    by (simp add: stub_pipeline_def)
  have h: "text_splitter (stub_pipeline (PyStr ''empty'')) = Some ?rc \<and>
      persist_directory (stub_pipeline (PyStr ''empty'')) = Some ''recursive_db'' \<and>
      storage_fault stub_libs ''recursive_db'' = None"
    by (simp add: stub_libs_def stub_pipeline_def)
  have e: "vector_store empty_world ''recursive_db'' = []"
    by (simp add: empty_world_def)
  note t = empty_source_loads_nothing_and_adds_nothing[OF src, of empty_world]
  note t2 = empty_source_loads_nothing_and_adds_nothing[OF src2, of empty_world]
  have l1: "fst (load_all_documents stub_libs (stub_pipeline (PyStr ''empty''), empty_world)) =
      Inr []"
    by (rule t[THEN conjunct1])
  have l2: "fst (load_all_documents stub_libs (stub_pipeline (PyList []), empty_world)) = Inr []"
    by (rule t2[THEN conjunct1])
  have c1: "fst (chunk_documents stub_libs []
          (snd (load_all_documents stub_libs (stub_pipeline (PyStr ''empty''), empty_world)))) =
     Inr []"
    by (rule t[THEN conjunct2, THEN conjunct1, rule_format, OF sp])
  from t[THEN conjunct2, THEN conjunct2, rule_format, OF h]
  obtain w' where w': "prepare_and_save_vectordb stub_libs
        (stub_pipeline (PyStr ''empty''), empty_world) =
      (Inr \<lparr>collection_dir = ''recursive_db''\<rparr>, (stub_pipeline (PyStr ''empty''), w'))"
    and c: "count w' \<lparr>collection_dir = ''recursive_db''\<rparr> =
       length (vector_store empty_world ''recursive_db'')"
    by blast
  have r: "fst (prepare_and_save_vectordb stub_libs
        (stub_pipeline (PyStr ''empty''), empty_world)) =
     Inr \<lparr>collection_dir = ''recursive_db''\<rparr>"
    unfolding w' by simp
  have n: "count (snd (snd (prepare_and_save_vectordb stub_libs
            (stub_pipeline (PyStr ''empty''), empty_world))))
     \<lparr>collection_dir = ''recursive_db''\<rparr> = 0"
    unfolding w' by (simp add: c e)
  show ?thesis by (intro conjI ls l1 l2 c1 r n)
qed

text \<open>
  Claim C10 as stated fails when the persistence directory already holds an entry: the
  empty source loads, but the index counts 1, not 0; and on a read-only persistence
  directory the run of an empty source ends with the storage backend's exception.
\<close>

theorem empty_source_on_a_used_or_read_only_directory:
  "fst (load_all_documents stub_libs (stub_pipeline (PyList []), used_world)) = Inr [] \<and>
   fst (prepare_and_save_vectordb stub_libs (stub_pipeline (PyList []), used_world)) =
     Inr \<lparr>collection_dir = ''recursive_db''\<rparr> \<and>
   count (snd (snd (prepare_and_save_vectordb stub_libs
            (stub_pipeline (PyList []), used_world))))
     \<lparr>collection_dir = ''recursive_db''\<rparr> = 1 \<and>
   fst (prepare_and_save_vectordb stub_libs
          ((stub_pipeline (PyList []))\<lparr>persist_directory := Some ''readonly_db''\<rparr>,
           empty_world)) =
     Inl (Exception ''PermissionError'' ''readonly_db'')"
  by (simp add: prepare_and_save_vectordb_def load_all_documents_def chunk_documents_def
        Chroma_from_documents_def report_loaded_def count_def
        stub_libs_def stub_pipeline_def emit_def used_world_def empty_world_def Let_def)


end
